theory Spec2Isabelle
  imports Complex_Main "HOL-Library.Word" "HOL-Library.Log_Nat"
begin

section \<open>JavaScript values used by the ledger form\<close>

text \<open>
  A JavaScript string is a sequence of UTF-16 code units; \<open>length\<close> of the list is the
  string's \<open>.length\<close>. \<open>js\<close> turns a Latin-1 literal into such a string.
\<close>

type_synonym jsstring = "16 word list"

definition js :: "string \<Rightarrow> jsstring" where
  "js s = map (\<lambda>c. of_nat (of_char c)) s"

text \<open>
  The result of the built-in \<open>Number(s)\<close>: a finite double (every finite double is a
  rational; \<open>+0\<close> and \<open>-0\<close> are both \<open>Finite 0\<close>, as \<open>===\<close> identifies them), a NaN or an
  infinity. The conversion itself is a built-in of the language, not code of the
  repository, so the functions that call it take it as the parameter \<open>toNumber\<close>.
\<close>

datatype jsnum = Finite rat | NaN | PosInfinity | NegInfinity

fun isFinite :: "jsnum \<Rightarrow> bool" where
  "isFinite (Finite _) = True"
| "isFinite _ = False"

text \<open>
  \<open>String.prototype.trim\<close> strips the code units of the ECMAScript productions
  WhiteSpace and LineTerminator from both ends.
\<close>

definition isWhiteSpace :: "16 word \<Rightarrow> bool" where
  "isWhiteSpace c \<longleftrightarrow>
     c = 0x0009 \<or> c = 0x000A \<or> c = 0x000B \<or> c = 0x000C \<or> c = 0x000D \<or> c = 0x0020 \<or>
     c = 0x00A0 \<or> c = 0x1680 \<or> (0x2000 \<le> c \<and> c \<le> 0x200A) \<or> c = 0x2028 \<or>
     c = 0x2029 \<or> c = 0x202F \<or> c = 0x205F \<or> c = 0x3000 \<or> c = 0xFEFF"

definition trim :: "jsstring \<Rightarrow> jsstring" where
  "trim s = rev (dropWhile isWhiteSpace (rev (dropWhile isWhiteSpace s)))"

definition comma :: "16 word" where
  "comma = 0x002C"

text \<open>\<open>raw.replaceAll(',', '')\<close>: every comma is dropped, the rest keeps its order.\<close>

definition removeCommas :: "jsstring \<Rightarrow> jsstring" where
  "removeCommas raw = filter (\<lambda>c. c \<noteq> comma) raw"

section \<open>lib/feedback: parseMoneyInput\<close>

text \<open>
  \<^verbatim>\<open>
  export function parseMoneyInput(raw: string): number | null {
    if (!raw) return null;
    const normalized = raw.replaceAll(',', '').trim();
    if (!normalized) return null;
    const value = Number(normalized);
    if (!Number.isFinite(value)) return null;
    return value;
  }
  \<close>
  A string is falsy exactly when it is empty. The value returned is finite, so the
  result type is \<open>rat option\<close>, \<open>None\<close> for \<open>null\<close>.
\<close>

definition normalized :: "jsstring \<Rightarrow> jsstring" where
  "normalized raw = trim (removeCommas raw)"

definition parseMoneyInput :: "(jsstring \<Rightarrow> jsnum) \<Rightarrow> jsstring \<Rightarrow> rat option" where
  "parseMoneyInput toNumber raw =
     (if raw = [] then None
      else if normalized raw = [] then None
      else (case toNumber (normalized raw) of
              Finite v \<Rightarrow> Some v
            | _ \<Rightarrow> None))"

section \<open>views/LedgerView: validation of a ledger entry\<close>

datatype EntryType = contribution | withdrawal | income | expense | adjustment

fun entryTypeName :: "EntryType \<Rightarrow> string" where
  "entryTypeName contribution = ''contribution''"
| "entryTypeName withdrawal = ''withdrawal''"
| "entryTypeName income = ''income''"
| "entryTypeName expense = ''expense''"
| "entryTypeName adjustment = ''adjustment''"

datatype validation = Ok rat jsstring | Fail string

fun ok :: "validation \<Rightarrow> bool" where
  "ok (Ok _ _) = True"
| "ok (Fail _) = False"

text \<open>
  \<^verbatim>\<open>
  function validateEntryInput(amountInput, descInput, selectedInvestorId, type) {
    const parsedAmount = parseMoneyInput(amountInput);
    if (parsedAmount === null) return { ok: false, message: 'Amount must be numeric. ...' };
    if (parsedAmount === 0) return { ok: false, message: 'Amount cannot be zero. ...' };
    if (type !== 'adjustment' && parsedAmount < 0)
      return { ok: false, message: `${type} must be positive. ...` };
    const cleanDescription = descInput.trim();
    if (cleanDescription.length < 3) return { ok: false, message: 'Description is required ...' };
    if ((type === 'contribution' || type === 'withdrawal' || type === 'adjustment')
        && !selectedInvestorId)
      return { ok: false, message: `Select an investor for ${type} entries ...` };
    return { ok: true, amount: parsedAmount, description: cleanDescription };
  }
  \<close>
\<close>

definition validateEntryInput ::
  "(jsstring \<Rightarrow> jsnum) \<Rightarrow> jsstring \<Rightarrow> jsstring \<Rightarrow> jsstring \<Rightarrow> EntryType \<Rightarrow> validation" where
  "validateEntryInput toNumber amountInput descInput selectedInvestorId type =
     (case parseMoneyInput toNumber amountInput of
        None \<Rightarrow> Fail ''Amount must be numeric. Example: 2500000 or 2,500,000.''
      | Some parsedAmount \<Rightarrow>
          if parsedAmount = 0 then Fail ''Amount cannot be zero. Use a value like 1500000.''
          else if type \<noteq> adjustment \<and> parsedAmount < 0 then
            Fail (entryTypeName type @
                  '' must be positive. Use adjustment for negative correction values.'')
          else
            let cleanDescription = trim descInput in
            if length cleanDescription < 3 then
              Fail (''Description is required (at least 3 characters). Example: '' @ [CHR 0x22] @
                    ''Monthly management fee'' @ [CHR 0x22] @ ''.'')
            else if (type = contribution \<or> type = withdrawal \<or> type = adjustment)
                    \<and> selectedInvestorId = [] then
              Fail (''Select an investor for '' @ entryTypeName type @
                    '' entries so allocations remain auditable.'')
            else Ok parsedAmount cleanDescription)"

section \<open>context/PlatformContext: the selected period\<close>

datatype PeriodStatus = draft | review | closed

text \<open>
  \<^verbatim>\<open>
  export interface CloseChecklist {
    can_close: boolean;
    checklist: Record<string, boolean>;
    ...
  }
  \<close>
  The record of flags is a map from key to flag; a key the response does not carry reads
  as \<open>undefined\<close>, here \<open>None\<close>.
\<close>

record CloseChecklist =
  can_close :: bool
  checklist :: "string \<rightharpoonup> bool"

text \<open>
  What \<open>usePlatform()\<close> hands to the views. \<open>selectedPeriod\<close> is the status of the entry of
  the period list whose id is \<open>selectedPeriodId\<close> (\<open>None\<close> when there is none),
  \<open>periodState\<close> the status of the fetched period state.
\<close>

record PlatformContextValue =
  selectedClubId :: "nat option"
  selectedPeriodId :: "nat option"
  selectedPeriod :: "PeriodStatus option"
  periodState :: "PeriodStatus option"
  closeChecklist :: "CloseChecklist option"

definition DEFAULT_STATUS :: PeriodStatus where
  "DEFAULT_STATUS = draft"

text \<open>
  \<^verbatim>\<open>
  const locked = selectedPeriod?.status === 'closed' || periodState?.status === 'closed';
  const status = (selectedPeriod?.status ?? periodState?.status ?? DEFAULT_STATUS) as PeriodStatus;
  \<close>
\<close>

definition locked :: "PlatformContextValue \<Rightarrow> bool" where
  "locked ctx \<longleftrightarrow> selectedPeriod ctx = Some closed \<or> periodState ctx = Some closed"

definition status :: "PlatformContextValue \<Rightarrow> PeriodStatus" where
  "status ctx =
     (case selectedPeriod ctx of
        Some s \<Rightarrow> s
      | None \<Rightarrow> (case periodState ctx of Some s \<Rightarrow> s | None \<Rightarrow> DEFAULT_STATUS))"

text \<open>\<open>!id\<close> for an id of type \<open>number | null\<close>: \<open>null\<close> and \<open>0\<close> are falsy.\<close>

fun falsyId :: "nat option \<Rightarrow> bool" where
  "falsyId None = True"
| "falsyId (Some n) = (n = 0)"

section \<open>views/LedgerView: the handlers\<close>

text \<open>
  The fields of a fetched ledger entry that the handlers read (\<open>entry_id\<close> is the
  field \<open>id\<close>, \<open>noteInput\<close> below the form state \<open>note\<close>).
\<close>

record LedgerEntry =
  entry_id :: nat
  investor_id :: "nat option"
  entry_type :: EntryType

text \<open>The state of the entry form and of the edit dialog.\<close>

record LedgerForm =
  entryType :: EntryType
  amount :: jsstring
  description :: jsstring
  category :: jsstring
  txDate :: jsstring
  noteInput :: jsstring
  reference :: jsstring
  investorId :: jsstring

record EditForm =
  editingEntry :: "LedgerEntry option"
  editAmount :: jsstring
  editDescription :: jsstring
  editCategory :: jsstring
  editTxDate :: jsstring
  editReference :: jsstring
  editNote :: jsstring

record CreatePayload =
  c_entry_type :: EntryType
  c_amount :: rat
  c_description :: jsstring
  c_category :: jsstring
  c_tx_date :: "jsstring option"
  c_note :: "jsstring option"
  c_reference :: "jsstring option"
  c_investor_id :: "jsnum option"

record UpdatePayload =
  u_amount :: rat
  u_description :: jsstring
  u_category :: jsstring
  u_tx_date :: "jsstring option"
  u_reference :: "jsstring option"
  u_note :: "jsstring option"

text \<open>The requests of lib/api that the two views send.\<close>

datatype ApiRequest =
    createLedgerEntry nat nat CreatePayload
  | updateLedgerEntry nat nat nat UpdatePayload
  | deleteLedgerEntry nat nat nat
  | submitReview nat nat
  | closeMonth nat nat

text \<open>
  What one run of a handler does: it returns at once, it shows a validation message and
  returns, or it sends a request.
\<close>

datatype Handled = Returned | Rejected string | Sent ApiRequest

fun sent :: "Handled \<Rightarrow> bool" where
  "sent (Sent _) = True"
| "sent _ = False"

text \<open>\<open>s || undefined\<close> and \<open>s.trim() || 'general'\<close> for strings.\<close>

definition orUndefined :: "jsstring \<Rightarrow> jsstring option" where
  "orUndefined s = (if s = [] then None else Some s)"

definition orGeneral :: "jsstring \<Rightarrow> jsstring" where
  "orGeneral s = (if s = [] then js ''general'' else s)"

text \<open>\<open>String(n)\<close> for an id: its decimal digits.\<close>

function natToString :: "nat \<Rightarrow> jsstring" where
  "natToString n =
     (if n < 10 then [of_nat (48 + n)]
      else natToString (n div 10) @ [of_nat (48 + n mod 10)])"
  by pat_completeness auto
termination
  by (relation "measure (\<lambda>n. n)") auto

text \<open>
  \<^verbatim>\<open>
  const requiresInvestor = entryType === 'contribution' || entryType === 'withdrawal'
                           || entryType === 'adjustment';
  const canEditEntries = status === 'draft' || status === 'review';
  const canDeleteEntries = status === 'draft';
  \<close>
\<close>

definition requiresInvestor :: "EntryType \<Rightarrow> bool" where
  "requiresInvestor t \<longleftrightarrow> t = contribution \<or> t = withdrawal \<or> t = adjustment"

definition canEditEntries :: "PlatformContextValue \<Rightarrow> bool" where
  "canEditEntries ctx \<longleftrightarrow> status ctx = draft \<or> status ctx = review"

definition canDeleteEntries :: "PlatformContextValue \<Rightarrow> bool" where
  "canDeleteEntries ctx \<longleftrightarrow> status ctx = draft"

text \<open>
  \<^verbatim>\<open>
  async function handleSubmit() {
    if (!selectedClubId || !selectedPeriodId || locked) return;
    const validation = validateEntryInput(amount, description, investorId, entryType);
    if (!validation.ok) { setError(validation.message); return; }
    ...
    await createLedgerEntry(selectedClubId, selectedPeriodId, {
      entry_type: entryType, amount: parsedAmount, description: validation.description,
      category: category.trim() || 'general', tx_date: txDate || undefined,
      note: note.trim() || undefined, reference: reference.trim() || undefined,
      investor_id: requiresInvestor && investorId ? Number(investorId) : undefined,
    });
  \<close>
\<close>

definition handleSubmit ::
  "(jsstring \<Rightarrow> jsnum) \<Rightarrow> PlatformContextValue \<Rightarrow> LedgerForm \<Rightarrow> Handled" where
  "handleSubmit toNumber ctx f =
     (if falsyId (selectedClubId ctx) \<or> falsyId (selectedPeriodId ctx) \<or> locked ctx then Returned
      else
        (case validateEntryInput toNumber (amount f) (description f) (investorId f) (entryType f) of
           Fail message \<Rightarrow> Rejected message
         | Ok parsedAmount cleanDescription \<Rightarrow>
             Sent (createLedgerEntry (the (selectedClubId ctx)) (the (selectedPeriodId ctx))
               \<lparr> c_entry_type = entryType f,
                 c_amount = parsedAmount,
                 c_description = cleanDescription,
                 c_category = orGeneral (trim (category f)),
                 c_tx_date = orUndefined (txDate f),
                 c_note = orUndefined (trim (noteInput f)),
                 c_reference = orUndefined (trim (reference f)),
                 c_investor_id =
                   (if requiresInvestor (entryType f) \<and> investorId f \<noteq> []
                    then Some (toNumber (investorId f)) else None) \<rparr>)))"

text \<open>
  \<^verbatim>\<open>
  function openEdit(entry: LedgerEntry) {
    if (!canEditEntries || locked) return;
    setEditingEntry(entry); ...; setEditOpen(true);
  }
  \<close>
  The result is the entry put under edit, \<open>None\<close> when the function returns at once.
\<close>

definition openEdit :: "PlatformContextValue \<Rightarrow> LedgerEntry \<Rightarrow> LedgerEntry option" where
  "openEdit ctx entry = (if \<not> canEditEntries ctx \<or> locked ctx then None else Some entry)"

text \<open>
  \<^verbatim>\<open>
  async function handleUpdateEntry() {
    if (!selectedClubId || !selectedPeriodId || !editingEntry || locked) return;
    if (status === 'closed') return;
    const editInvestorId = editingEntry.investor_id ? String(editingEntry.investor_id) : '';
    const validation = validateEntryInput(editAmount, editDescription, editInvestorId,
                                          editingEntry.entry_type);
    if (!validation.ok) { setError(validation.message); return; }
    ...
    await updateLedgerEntry(selectedClubId, selectedPeriodId, editingEntry.id, {
      amount: parsedAmount, description: validation.description,
      category: editCategory.trim() || 'general', tx_date: editTxDate || undefined,
      reference: editReference.trim() || undefined, note: editNote.trim() || undefined,
    });
  \<close>
\<close>

definition editInvestorId :: "LedgerEntry \<Rightarrow> jsstring" where
  "editInvestorId entry =
     (if falsyId (investor_id entry) then [] else natToString (the (investor_id entry)))"

definition handleUpdateEntry ::
  "(jsstring \<Rightarrow> jsnum) \<Rightarrow> PlatformContextValue \<Rightarrow> EditForm \<Rightarrow> Handled" where
  "handleUpdateEntry toNumber ctx f =
     (case editingEntry f of
        None \<Rightarrow> Returned
      | Some entry \<Rightarrow>
          if falsyId (selectedClubId ctx) \<or> falsyId (selectedPeriodId ctx) \<or> locked ctx
          then Returned
          else if status ctx = closed then Returned
          else
            (case validateEntryInput toNumber (editAmount f) (editDescription f)
                    (editInvestorId entry) (entry_type entry) of
               Fail message \<Rightarrow> Rejected message
             | Ok parsedAmount cleanDescription \<Rightarrow>
                 Sent (updateLedgerEntry (the (selectedClubId ctx)) (the (selectedPeriodId ctx))
                   (entry_id entry)
                   \<lparr> u_amount = parsedAmount,
                     u_description = cleanDescription,
                     u_category = orGeneral (trim (editCategory f)),
                     u_tx_date = orUndefined (editTxDate f),
                     u_reference = orUndefined (trim (editReference f)),
                     u_note = orUndefined (trim (editNote f)) \<rparr>)))"

text \<open>
  \<^verbatim>\<open>
  async function handleDeleteEntry() {
    if (!selectedClubId || !selectedPeriodId || !deleteTarget || locked || !canDeleteEntries)
      return;
    ...
    await deleteLedgerEntry(selectedClubId, selectedPeriodId, deleteTarget.id);
  \<close>
\<close>

definition handleDeleteEntry :: "PlatformContextValue \<Rightarrow> LedgerEntry option \<Rightarrow> Handled" where
  "handleDeleteEntry ctx deleteTarget =
     (case deleteTarget of
        None \<Rightarrow> Returned
      | Some target \<Rightarrow>
          if falsyId (selectedClubId ctx) \<or> falsyId (selectedPeriodId ctx) \<or> locked ctx
             \<or> \<not> canDeleteEntries ctx
          then Returned
          else Sent (deleteLedgerEntry (the (selectedClubId ctx)) (the (selectedPeriodId ctx))
                       (entry_id target)))"

section \<open>views/CloseMonthView\<close>

record ChecklistRow =
  key :: string
  label :: string
  pass :: "bool option"

text \<open>
  \<^verbatim>\<open>
  const checklistRows = useMemo(() => {
    if (!checklist) return [];
    return [
      { key: 'has_positions', label: 'Investor positions exist',
        pass: checklist.checklist.has_positions },
      { key: 'has_ledger_entries', label: 'Ledger entries posted',
        pass: checklist.checklist.has_ledger_entries },
      { key: 'submitted_for_review', label: 'Submitted for review',
        pass: checklist.checklist.submitted_for_review },
      { key: 'reconciled', label: 'Reconciliation exact', pass: checklist.checklist.reconciled },
      { key: 'not_already_closed', label: 'Period not already closed',
        pass: checklist.checklist.not_already_closed },
    ];
  }, [checklist]);
  \<close>
\<close>

definition checklistRows :: "PlatformContextValue \<Rightarrow> ChecklistRow list" where
  "checklistRows ctx =
     (case closeChecklist ctx of
        None \<Rightarrow> []
      | Some c \<Rightarrow>
          [ \<lparr> key = ''has_positions'', label = ''Investor positions exist'',
              pass = checklist c ''has_positions'' \<rparr>,
            \<lparr> key = ''has_ledger_entries'', label = ''Ledger entries posted'',
              pass = checklist c ''has_ledger_entries'' \<rparr>,
            \<lparr> key = ''submitted_for_review'', label = ''Submitted for review'',
              pass = checklist c ''submitted_for_review'' \<rparr>,
            \<lparr> key = ''reconciled'', label = ''Reconciliation exact'',
              pass = checklist c ''reconciled'' \<rparr>,
            \<lparr> key = ''not_already_closed'', label = ''Period not already closed'',
              pass = checklist c ''not_already_closed'' \<rparr> ])"

text \<open>
  The two buttons:
  \<^verbatim>\<open>
  <Button onClick={handleSubmitReview} disabled={submitting || locked || status !== 'draft'} ...>
  <Button onClick={handleCloseMonth} disabled={submitting || locked || !checklist?.can_close} ...>
  \<close>
  \<open>checklist?.can_close\<close> is \<open>undefined\<close>, hence falsy, while no checklist is loaded.
\<close>

definition submitReviewDisabled :: "bool \<Rightarrow> PlatformContextValue \<Rightarrow> bool" where
  "submitReviewDisabled submitting ctx \<longleftrightarrow> submitting \<or> locked ctx \<or> status ctx \<noteq> draft"

definition runCloseDisabled :: "bool \<Rightarrow> PlatformContextValue \<Rightarrow> bool" where
  "runCloseDisabled submitting ctx \<longleftrightarrow>
     submitting \<or> locked ctx \<or>
     \<not> (case closeChecklist ctx of None \<Rightarrow> False | Some c \<Rightarrow> can_close c)"

text \<open>
  \<^verbatim>\<open>
  async function handleSubmitReview() {
    if (!selectedClubId || !selectedPeriodId || locked) return;
    ... await submitReview(selectedClubId, selectedPeriodId);
  async function handleCloseMonth() {
    if (!selectedClubId || !selectedPeriodId) return;
    ... await closeMonth(selectedClubId, selectedPeriodId);
  \<close>
\<close>

definition handleSubmitReview :: "PlatformContextValue \<Rightarrow> Handled" where
  "handleSubmitReview ctx =
     (if falsyId (selectedClubId ctx) \<or> falsyId (selectedPeriodId ctx) \<or> locked ctx then Returned
      else Sent (submitReview (the (selectedClubId ctx)) (the (selectedPeriodId ctx))))"

definition handleCloseMonth :: "PlatformContextValue \<Rightarrow> Handled" where
  "handleCloseMonth ctx =
     (if falsyId (selectedClubId ctx) \<or> falsyId (selectedPeriodId ctx) then Returned
      else Sent (closeMonth (the (selectedClubId ctx)) (the (selectedPeriodId ctx))))"

text \<open>A click on the Run Close button: a disabled button does not call its handler.\<close>

definition clickRunClose :: "bool \<Rightarrow> PlatformContextValue \<Rightarrow> Handled" where
  "clickRunClose submitting ctx =
     (if runCloseDisabled submitting ctx then Returned else handleCloseMonth ctx)"

section \<open>The arithmetic of \<open>number\<close>\<close>

text \<open>
  A TypeScript \<open>number\<close> is an IEEE 754 binary64 value: a finite double, one of the two
  zeros, a NaN or an infinity. \<open>Num x\<close> is the finite double of value \<open>x\<close> (with
  \<open>Num 0\<close> the zero \<open>+0\<close>) and \<open>MinusZero\<close> the zero \<open>-0\<close>.
\<close>

datatype number = Num rat | MinusZero | NotANumber | PlusInfinity | MinusInfinity

fun val :: "number \<Rightarrow> rat" where
  "val (Num x) = x"
| "val _ = 0"

fun signbit :: "number \<Rightarrow> bool" where
  "signbit (Num x) = (x < 0)"
| "signbit MinusZero = True"
| "signbit MinusInfinity = True"
| "signbit _ = False"

text \<open>\<open>x === 0\<close> holds for both zeros.\<close>

fun isZero :: "number \<Rightarrow> bool" where
  "isZero (Num x) = (x = 0)"
| "isZero MinusZero = True"
| "isZero _ = False"

fun isInfinite :: "number \<Rightarrow> bool" where
  "isInfinite PlusInfinity = True"
| "isInfinite MinusInfinity = True"
| "isInfinite _ = False"

definition signedZero :: "bool \<Rightarrow> number" where
  "signedZero negative = (if negative then MinusZero else Num 0)"

definition signedInfinity :: "bool \<Rightarrow> number" where
  "signedInfinity negative = (if negative then MinusInfinity else PlusInfinity)"

text \<open>Rounding to the nearest integer, a tie going to the even one.\<close>

definition roundTiesToEven :: "rat \<Rightarrow> int" where
  "roundTiesToEven y =
     (let f = \<lfloor>y\<rfloor>; d = y - of_int f
      in if d < 1 / 2 then f else if 1 / 2 < d then f + 1 else if even f then f else f + 1)"

text \<open>
  The binary exponent of a positive rational: the \<open>e\<close> with \<open>2^e \<le> x < 2^(e+1)\<close>, from
  the bit lengths of numerator and denominator.
\<close>

definition ilog2 :: "rat \<Rightarrow> int" where
  "ilog2 x =
     (let d = bitlen (fst (quotient_of x)) - bitlen (snd (quotient_of x))
      in if 2 powi d \<le> x then d else d - 1)"

text \<open>
  The rounding every arithmetic operation ends with (roundTiesToEven of IEEE 754): the
  exact result \<open>x\<close> goes to the nearest double, a tie to the one with an even
  significand. A double has 53 significant bits, so the spacing of the doubles around
  \<open>x\<close> is \<open>2^(e - 52)\<close> for the exponent \<open>e\<close> of \<open>x\<close>, and \<open>2^(-1074)\<close> below the
  smallest normal number \<open>2^(-1022)\<close>. What rounds to \<open>2^1024\<close> (\<open>overflowThreshold\<close>)
  or more overflows to an infinity; what rounds to nothing is a zero with the sign of
  \<open>x\<close>.
\<close>

definition overflowThreshold :: rat where
  "overflowThreshold = 2 ^ 1024"

definition roundToDouble :: "rat \<Rightarrow> number" where
  "roundToDouble x =
     (if x = 0 then Num 0
      else
        let a = \<bar>x\<bar>;
            e = max (ilog2 a) (- 1022);
            q = 2 powi (e - 52);
            m = of_int (roundTiesToEven (a / q)) * q
        in if overflowThreshold \<le> m then signedInfinity (x < 0)
           else if m = 0 then signedZero (x < 0)
           else Num (sgn x * m))"

text \<open>
  \<open>x + y\<close>: a NaN operand or infinities of opposite sign give NaN; an infinity wins over
  a finite operand; \<open>-0 + -0\<close> is \<open>-0\<close>; any other exact sum of zero is \<open>+0\<close>; the
  rest is the rounded exact sum.
\<close>

fun fadd :: "number \<Rightarrow> number \<Rightarrow> number" where
  "fadd NotANumber _ = NotANumber"
| "fadd _ NotANumber = NotANumber"
| "fadd PlusInfinity MinusInfinity = NotANumber"
| "fadd MinusInfinity PlusInfinity = NotANumber"
| "fadd PlusInfinity _ = PlusInfinity"
| "fadd MinusInfinity _ = MinusInfinity"
| "fadd _ PlusInfinity = PlusInfinity"
| "fadd _ MinusInfinity = MinusInfinity"
| "fadd MinusZero MinusZero = MinusZero"
| "fadd x y = (let s = val x + val y in if s = 0 then Num 0 else roundToDouble s)"

fun fneg :: "number \<Rightarrow> number" where
  "fneg (Num x) = (if x = 0 then MinusZero else Num (- x))"
| "fneg MinusZero = Num 0"
| "fneg NotANumber = NotANumber"
| "fneg PlusInfinity = MinusInfinity"
| "fneg MinusInfinity = PlusInfinity"

text \<open>\<open>x - y\<close> is \<open>x + (-y)\<close>.\<close>

definition fsub :: "number \<Rightarrow> number \<Rightarrow> number" where
  "fsub x y = fadd x (fneg y)"

text \<open>
  \<open>x * y\<close>: the sign is the exclusive or of the signs; infinity times zero is NaN; a
  zero operand gives a zero; the rest is the rounded exact product.
\<close>

fun fmul :: "number \<Rightarrow> number \<Rightarrow> number" where
  "fmul NotANumber _ = NotANumber"
| "fmul _ NotANumber = NotANumber"
| "fmul x y =
     (if isInfinite x \<or> isInfinite y then
        (if isZero x \<or> isZero y then NotANumber else signedInfinity (signbit x \<noteq> signbit y))
      else if isZero x \<or> isZero y then signedZero (signbit x \<noteq> signbit y)
      else roundToDouble (val x * val y))"

text \<open>
  \<open>x / y\<close>: infinity by infinity and zero by zero are NaN; a finite dividend by an
  infinity is a zero, a non-zero dividend by a zero an infinity; the rest is the rounded
  exact quotient.
\<close>

fun fdiv :: "number \<Rightarrow> number \<Rightarrow> number" where
  "fdiv NotANumber _ = NotANumber"
| "fdiv _ NotANumber = NotANumber"
| "fdiv x y =
     (if isInfinite x then
        (if isInfinite y then NotANumber else signedInfinity (signbit x \<noteq> signbit y))
      else if isInfinite y then signedZero (signbit x \<noteq> signbit y)
      else if isZero y then
        (if isZero x then NotANumber else signedInfinity (signbit x \<noteq> signbit y))
      else if isZero x then signedZero (signbit x \<noteq> signbit y)
      else roundToDouble (val x / val y))"

section \<open>lib/utils: the allocation helpers\<close>

text \<open>
  \<^verbatim>\<open>
  export function calculateOwnership(openingBalance: number, totalOpeningNAV: number): number {
    if (totalOpeningNAV === 0) return 0;
    return (openingBalance / totalOpeningNAV) * 100;
  }
  export function calculateNetAllocation(ownership: number, totalIncome: number,
                                         totalExpenses: number): number {
    const netIncome = totalIncome - totalExpenses;
    return (ownership / 100) * netIncome;
  }
  export function calculateClosingBalance(openingBalance: number, contribution: number,
                                          withdrawal: number, netAllocation: number): number {
    return openingBalance + contribution - withdrawal + netAllocation;
  }
  \<close>
  Each operator is the binary64 operation, applied in the order of the source: the sum
  of \<open>calculateClosingBalance\<close> is evaluated from left to right.
  (\<open>contribution'\<close> and \<open>withdrawal'\<close> are the parameters \<open>contribution\<close> and
  \<open>withdrawal\<close>, primed apart from the entry types of the same names.)
\<close>

definition calculateOwnership :: "number \<Rightarrow> number \<Rightarrow> number" where
  "calculateOwnership openingBalance totalOpeningNAV =
     (if isZero totalOpeningNAV then Num 0
      else fmul (fdiv openingBalance totalOpeningNAV) (Num 100))"


definition calculateClosingBalance :: "number \<Rightarrow> number \<Rightarrow> number \<Rightarrow> number \<Rightarrow> number" where
  "calculateClosingBalance openingBalance contribution' withdrawal' netAllocation =
     fadd (fsub (fadd openingBalance contribution') withdrawal') netAllocation"

section \<open>The NAV accounting engine of the backend\<close>

text \<open>
  The engine runs on the server (\<open>backend/app\<close>); the repository's sources at hand hold
  its documentation and the client that calls it, not its code. Every definition of
  this section is therefore written from the specification, and says so.
\<close>

subsection \<open>Monetary arithmetic\<close>

text \<open>
  Modelled from the spec: the rounding of the Monetary Arithmetic Utility (backend, absent).
  A value is rounded to \<open>scale\<close> decimal places, half-up, a tie going away from zero;
  money has scale 2 and an ownership fraction scale 6.
\<close>

definition quantize :: "nat \<Rightarrow> rat \<Rightarrow> rat" where
  "quantize scale x = sgn x * of_int \<lfloor>\<bar>x\<bar> * 10 ^ scale + 1 / 2\<rfloor> / 10 ^ scale"

subsection \<open>Data model\<close>

text \<open>
  Modelled from the spec: AccountingPeriod (backend model, absent), without the club,
  year and month that identify it.
\<close>

record AccountingPeriod =
  period_status :: PeriodStatus
  opening_nav :: rat
  closing_nav :: rat
  reconciliation_diff :: rat
  locked_at :: "nat option"

text \<open>
  Modelled from the spec: a posted LedgerEntry of the backend (absent): its type, its
  amount and the investor it refers to, if any.
\<close>

record PostedEntry =
  posted_type :: EntryType
  posted_amount :: rat
  posted_investor :: "nat option"

text \<open>
  Modelled from the spec: InvestorPosition (backend model, absent), the computed row of
  one investor in the open period.
\<close>

record InvestorPosition =
  pos_investor :: nat
  pos_opening_balance :: rat
  pos_ownership_pct :: rat
  pos_income_share :: rat
  pos_expense_share :: rat
  pos_net_allocation :: rat
  pos_contributions :: rat
  pos_withdrawals :: rat
  pos_adjustments :: rat
  pos_closing_balance :: rat

text \<open>
  Modelled from the spec: NavSnapshot (backend model, absent), the club-level figures
  captured at close.
\<close>

record NavSnapshot =
  snap_opening_nav :: rat
  snap_contributions :: rat
  snap_withdrawals :: rat
  snap_income :: rat
  snap_expenses :: rat
  snap_closing_nav :: rat

text \<open>
  Modelled from the spec: InvestorBalance (backend model, absent), the frozen mirror of
  an InvestorPosition, a type of its own.
\<close>

record InvestorBalance =
  bal_investor :: nat
  bal_opening_balance :: rat
  bal_ownership_pct :: rat
  bal_income_share :: rat
  bal_expense_share :: rat
  bal_net_allocation :: rat
  bal_contributions :: rat
  bal_withdrawals :: rat
  bal_adjustments :: rat
  bal_closing_balance :: rat

text \<open>
  Modelled from the spec: the stamp of a ReconciliationResult (backend, absent): the
  Reconciled indicator, or the Mismatch indicator with the signed mismatch amount.
\<close>

datatype Stamp = Reconciled | Mismatch rat

text \<open>Modelled from the spec: ReconciliationResult (backend value object, absent).\<close>

record ReconciliationResult =
  reconciled :: bool
  mismatch :: rat
  stamp :: Stamp
  reasons :: "string list"

text \<open>Modelled from the spec: the error taxonomy of the engine (backend, absent).\<close>

datatype EngineError =
    ValidationError
  | StateError
  | ReconciliationMismatchError rat "string list"
  | NotFoundError

subsection \<open>Ledger Aggregator\<close>

text \<open>
  Modelled from the spec: the Ledger Aggregator's club total of one entry type (backend,
  absent): the sum of the amounts of the period's entries of that type, zero when there
  is none.
\<close>

definition type_total :: "EntryType \<Rightarrow> PostedEntry list \<Rightarrow> rat" where
  "type_total t es = sum_list (map posted_amount (filter (\<lambda>e. posted_type e = t) es))"

text \<open>
  Modelled from the spec: the Ledger Aggregator's total of one entry type for one
  investor (backend, absent).
\<close>

definition investor_total :: "EntryType \<Rightarrow> nat \<Rightarrow> PostedEntry list \<Rightarrow> rat" where
  "investor_total t i es =
     sum_list (map posted_amount
       (filter (\<lambda>e. posted_type e = t \<and> posted_investor e = Some i) es))"

subsection \<open>Allocation Engine\<close>

text \<open>
  Modelled from the spec: step 1 of the Allocation Engine (backend, absent):
  \<open>ownership_pct = opening_balance / club_opening_nav\<close> (0 if the denominator is 0),
  rounded to 6 decimals.
\<close>

definition ownership_pct :: "rat \<Rightarrow> rat \<Rightarrow> rat" where
  "ownership_pct opening_balance club_opening_nav =
     (if club_opening_nav = 0 then 0 else quantize 6 (opening_balance / club_opening_nav))"

text \<open>
  Modelled from the spec: step 2 of the Allocation Engine (backend, absent):
  \<open>income_share = ownership_pct * club_total_income\<close> and
  \<open>expense_share = ownership_pct * club_total_expenses\<close>, each rounded to money scale.
\<close>

definition income_share :: "rat \<Rightarrow> rat \<Rightarrow> rat" where
  "income_share pct club_total_income = quantize 2 (pct * club_total_income)"

text \<open>
  Modelled from the spec: the expense share of step 2 of the Allocation Engine (backend,
  absent), rounded to money scale like the income share.
\<close>

definition expense_share :: "rat \<Rightarrow> rat \<Rightarrow> rat" where
  "expense_share pct club_total_expenses = quantize 2 (pct * club_total_expenses)"

text \<open>
  Modelled from the spec: step 3 of the Allocation Engine (backend, absent):
  \<open>net_allocation = income_share - expense_share\<close>.
\<close>

definition net_allocation :: "rat \<Rightarrow> rat \<Rightarrow> rat \<Rightarrow> rat" where
  "net_allocation pct club_total_income club_total_expenses =
     income_share pct club_total_income - expense_share pct club_total_expenses"

text \<open>
  Modelled from the spec: step 4 of the Allocation Engine (backend, absent):
  \<open>closing_balance = opening_balance + net_allocation + investor_contributions -
  investor_withdrawals + investor_adjustment_total\<close>.
\<close>

definition closing_balance :: "rat \<Rightarrow> rat \<Rightarrow> rat \<Rightarrow> rat \<Rightarrow> rat \<Rightarrow> rat" where
  "closing_balance opening_balance net_alloc investor_contributions investor_withdrawals
       investor_adjustment_total =
     opening_balance + net_alloc + investor_contributions - investor_withdrawals
       + investor_adjustment_total"

text \<open>
  Modelled from the spec: step 5 of the Allocation Engine (backend, absent): the club-level
  \<open>closing_nav = opening_nav + total_contributions - total_withdrawals + total_income -
  total_expenses\<close>, from the aggregates of the ledger.
\<close>

definition club_closing_nav :: "rat \<Rightarrow> PostedEntry list \<Rightarrow> rat" where
  "club_closing_nav club_opening_nav es =
     club_opening_nav + type_total contribution es - type_total withdrawal es
       + type_total income es - type_total expense es"

text \<open>
  Modelled from the spec: the investors that ledger entries refer to (backend, absent);
  the Allocation Engine's output holds those with an opening position and those present
  in ledger entries but absent from the opening positions.
\<close>

definition ledger_investors :: "PostedEntry list \<Rightarrow> nat list" where
  "ledger_investors es = remdups (concat (map (\<lambda>e. case posted_investor e of
                                                     None \<Rightarrow> [] | Some i \<Rightarrow> [i]) es))"

text \<open>
  Modelled from the spec: the opening positions extended by the investors of the ledger
  that hold none (backend, absent); each of them enters with a zero opening balance.
\<close>

definition with_ledger_investors :: "(nat \<times> rat) list \<Rightarrow> PostedEntry list \<Rightarrow> (nat \<times> rat) list" where
  "with_ledger_investors opening es =
     opening @ map (\<lambda>i. (i, 0)) (filter (\<lambda>i. i \<notin> fst ` set opening) (ledger_investors es))"

text \<open>
  Modelled from the spec: the row the Allocation Engine computes for one investor
  (backend, absent), steps 1 to 4.
\<close>

definition position_row :: "rat \<Rightarrow> PostedEntry list \<Rightarrow> nat \<times> rat \<Rightarrow> InvestorPosition" where
  "position_row club_opening_nav es opening_position =
     (let i = fst opening_position;
          ob = snd opening_position;
          pct = ownership_pct ob club_opening_nav;
          inc_share = income_share pct (type_total income es);
          exp_share = expense_share pct (type_total expense es);
          net = net_allocation pct (type_total income es) (type_total expense es);
          con = investor_total contribution i es;
          wd = investor_total withdrawal i es;
          adj = investor_total adjustment i es
      in \<lparr> pos_investor = i, pos_opening_balance = ob, pos_ownership_pct = pct,
           pos_income_share = inc_share, pos_expense_share = exp_share,
           pos_net_allocation = net,
           pos_contributions = con, pos_withdrawals = wd, pos_adjustments = adj,
           pos_closing_balance = closing_balance ob net con wd adj \<rparr>)"

text \<open>Modelled from the spec: the Allocation Engine's result for a period (backend, absent).\<close>

definition allocate ::
  "AccountingPeriod \<Rightarrow> PostedEntry list \<Rightarrow> (nat \<times> rat) list \<Rightarrow> InvestorPosition list" where
  "allocate p es opening =
     map (position_row (opening_nav p) es) (with_ledger_investors opening es)"

subsection \<open>Reconciliation Gate\<close>

text \<open>
  Modelled from the spec: the Reconciliation Gate (backend, absent):
  \<open>mismatch = club_closing_nav - sum(investor.closing_balance)\<close>,
  \<open>reconciled = (mismatch == 0)\<close> with no tolerance, the stamp, and the diagnostic
  reasons (missing positions).
\<close>

definition reconcile :: "rat \<Rightarrow> InvestorPosition list \<Rightarrow> ReconciliationResult" where
  "reconcile club_nav rows =
     (let m = club_nav - sum_list (map pos_closing_balance rows)
      in \<lparr> reconciled = (m = 0),
           mismatch = m,
           stamp = (if m = 0 then Reconciled else Mismatch m),
           reasons = (if rows = [] then [''missing investor positions''] else []) \<rparr>)"

text \<open>Modelled from the spec: the result of \<open>previewPeriod\<close> (backend, absent).\<close>

record PeriodPreview =
  preview_positions :: "InvestorPosition list"
  preview_closing_nav :: rat
  preview_reconciliation :: ReconciliationResult

text \<open>
  Modelled from the spec: \<open>previewPeriod\<close> (backend, absent): the allocation, the
  club-level closing NAV and their reconciliation, for a period of any status.
\<close>

definition previewPeriod ::
  "AccountingPeriod \<Rightarrow> PostedEntry list \<Rightarrow> (nat \<times> rat) list \<Rightarrow> PeriodPreview" where
  "previewPeriod p es opening =
     (let rows = allocate p es opening;
          nav = club_closing_nav (opening_nav p) es
      in \<lparr> preview_positions = rows,
           preview_closing_nav = nav,
           preview_reconciliation = reconcile nav rows \<rparr>)"

subsection \<open>Close Checklist\<close>

text \<open>
  Modelled from the spec: condition 1 of the Close Checklist (backend, absent): investor
  positions exist for the period.
\<close>

definition has_positions :: "(nat \<times> rat) list \<Rightarrow> bool" where
  "has_positions opening \<longleftrightarrow> opening \<noteq> []"

text \<open>
  Modelled from the spec: condition 2 of the Close Checklist (backend, absent): at least
  one ledger entry has been posted.
\<close>

definition has_ledger_entries :: "PostedEntry list \<Rightarrow> bool" where
  "has_ledger_entries es \<longleftrightarrow> es \<noteq> []"

text \<open>
  Modelled from the spec: condition 3 of the Close Checklist (backend, absent): the period
  has been submitted for review (\<open>status == Review\<close>).
\<close>

definition submitted_for_review :: "AccountingPeriod \<Rightarrow> bool" where
  "submitted_for_review p \<longleftrightarrow> period_status p = review"

text \<open>
  Modelled from the spec: condition 4 of the Close Checklist (backend, absent): the
  Reconciliation Gate reports \<open>reconciled == true\<close>.
\<close>

definition is_reconciled :: "AccountingPeriod \<Rightarrow> PostedEntry list \<Rightarrow> (nat \<times> rat) list \<Rightarrow> bool" where
  "is_reconciled p es opening = reconciled (preview_reconciliation (previewPeriod p es opening))"

text \<open>
  Modelled from the spec: condition 5 of the Close Checklist (backend, absent): the period
  is not already Closed.
\<close>

definition not_already_closed :: "AccountingPeriod \<Rightarrow> bool" where
  "not_already_closed p \<longleftrightarrow> period_status p \<noteq> closed"

text \<open>
  Modelled from the spec: \<open>getCloseChecklist\<close> (backend, absent): each condition under
  the key the client reads it by, and their conjunction \<open>can_close\<close>.
\<close>

definition getCloseChecklist ::
  "AccountingPeriod \<Rightarrow> PostedEntry list \<Rightarrow> (nat \<times> rat) list \<Rightarrow> CloseChecklist" where
  "getCloseChecklist p es opening =
     \<lparr> can_close = (has_positions opening \<and> has_ledger_entries es \<and> submitted_for_review p
                    \<and> is_reconciled p es opening \<and> not_already_closed p),
       checklist = [ ''has_positions'' \<mapsto> has_positions opening,
                     ''has_ledger_entries'' \<mapsto> has_ledger_entries es,
                     ''submitted_for_review'' \<mapsto> submitted_for_review p,
                     ''reconciled'' \<mapsto> is_reconciled p es opening,
                     ''not_already_closed'' \<mapsto> not_already_closed p ] \<rparr>"

subsection \<open>Period State Machine and Snapshot Builder\<close>

text \<open>
  Modelled from the spec: \<open>submitForReview\<close> (backend, absent): Draft to Review, legal
  only from Draft.
\<close>

definition submitForReview :: "AccountingPeriod \<Rightarrow> EngineError + AccountingPeriod" where
  "submitForReview p =
     (if period_status p = draft then Inr (p\<lparr>period_status := review\<rparr>) else Inl StateError)"

text \<open>
  Modelled from the spec: the Snapshot Builder's InvestorBalance row (backend, absent),
  the frozen copy of a position.
\<close>

definition freeze :: "InvestorPosition \<Rightarrow> InvestorBalance" where
  "freeze r =
     \<lparr> bal_investor = pos_investor r, bal_opening_balance = pos_opening_balance r,
       bal_ownership_pct = pos_ownership_pct r, bal_income_share = pos_income_share r,
       bal_expense_share = pos_expense_share r, bal_net_allocation = pos_net_allocation r,
       bal_contributions = pos_contributions r, bal_withdrawals = pos_withdrawals r,
       bal_adjustments = pos_adjustments r, bal_closing_balance = pos_closing_balance r \<rparr>"

text \<open>
  Modelled from the spec: the Snapshot Builder's NavSnapshot (backend, absent): the
  club-level figures of the period at the instant of close.
\<close>

definition build_snapshot :: "AccountingPeriod \<Rightarrow> PostedEntry list \<Rightarrow> NavSnapshot" where
  "build_snapshot p es =
     \<lparr> snap_opening_nav = opening_nav p,
       snap_contributions = type_total contribution es,
       snap_withdrawals = type_total withdrawal es,
       snap_income = type_total income es,
       snap_expenses = type_total expense es,
       snap_closing_nav = club_closing_nav (opening_nav p) es \<rparr>"

text \<open>
  Modelled from the spec: \<open>closePeriod\<close> (backend, absent), one atomic unit. The close is
  legal only from Review (otherwise StateError) and only when the checklist passes: a
  failed reconciliation is a ReconciliationMismatchError with the exact mismatch and the
  period stays as it is; any other failed condition is a StateError. On success the
  allocation is computed one last time, one NavSnapshot and one InvestorBalance per
  position are written, the status becomes Closed and \<open>locked_at\<close> is stamped with the
  time \<open>now\<close>.
\<close>

definition closePeriod ::
  "nat \<Rightarrow> AccountingPeriod \<Rightarrow> PostedEntry list \<Rightarrow> (nat \<times> rat) list
     \<Rightarrow> EngineError + (AccountingPeriod \<times> NavSnapshot \<times> InvestorBalance list)" where
  "closePeriod now p es opening =
     (if period_status p \<noteq> review then Inl StateError
      else
        let pv = previewPeriod p es opening;
            rc = preview_reconciliation pv
        in if \<not> reconciled rc then Inl (ReconciliationMismatchError (mismatch rc) (reasons rc))
           else if \<not> can_close (getCloseChecklist p es opening) then Inl StateError
           else Inr (p\<lparr> period_status := closed,
                        closing_nav := preview_closing_nav pv,
                        reconciliation_diff := mismatch rc,
                        locked_at := Some now \<rparr>,
                     build_snapshot p es,
                     map freeze (preview_positions pv)))"

section \<open>Properties of parseMoneyInput\<close>

lemma last_dropWhile:
  "dropWhile P xs \<noteq> [] \<Longrightarrow> last (dropWhile P xs) = last xs"
  by (induction xs) (auto split: if_splits)

lemma trim_ends:
  "trim s = [] \<or> (\<not> isWhiteSpace (hd (trim s)) \<and> \<not> isWhiteSpace (last (trim s)))"
proof (cases "trim s = []")
  case True
  then show ?thesis by simp
next
  case False
  let ?ys = "dropWhile isWhiteSpace s"
  let ?zs = "dropWhile isWhiteSpace (rev ?ys)"
  from False have zs: "?zs \<noteq> []" by (simp add: trim_def)
  then have ys: "?ys \<noteq> []" by (auto simp del: dropWhile_eq_Nil_conv)
  have "last (trim s) = hd ?zs" using zs by (simp add: trim_def last_rev)
  moreover have "\<not> isWhiteSpace (hd ?zs)" using zs by (rule hd_dropWhile)
  moreover have "hd (trim s) = last ?zs" using zs by (simp add: trim_def hd_rev)
  moreover have "last ?zs = last (rev ?ys)" using zs by (rule last_dropWhile)
  moreover have "last (rev ?ys) = hd ?ys" using ys by (simp add: last_rev)
  moreover have "\<not> isWhiteSpace (hd ?ys)" using ys by (rule hd_dropWhile)
  ultimately show ?thesis by simp
qed

lemma set_trim: "set (trim s) \<subseteq> set s"
  unfolding trim_def by (auto dest!: set_dropWhileD)

lemma comma_notin_normalized: "comma \<notin> set (normalized raw)"
proof -
  have "set (normalized raw) \<subseteq> set (removeCommas raw)"
    unfolding normalized_def by (rule set_trim)
  moreover have "comma \<notin> set (removeCommas raw)"
    by (simp add: removeCommas_def)
  ultimately show ?thesis by blast
qed

lemma parseMoneyInput_None:
  "parseMoneyInput N raw = None \<longleftrightarrow>
     raw = [] \<or> normalized raw = [] \<or> \<not> isFinite (N (normalized raw))"
  by (cases "N (normalized raw)") (simp_all add: parseMoneyInput_def)

lemma parseMoneyInput_Some:
  "parseMoneyInput N raw = Some v \<longleftrightarrow>
     raw \<noteq> [] \<and> normalized raw \<noteq> [] \<and> N (normalized raw) = Finite v"
  by (cases "N (normalized raw)") (auto simp add: parseMoneyInput_def)

lemma normalized_example: "normalized (js ''2,500,000'') = js ''2500000''"
  by (simp add: normalized_def removeCommas_def trim_def comma_def js_def isWhiteSpace_def)

lemma dropWhile_all: "list_all P xs \<Longrightarrow> dropWhile P (xs @ ys) = dropWhile P ys"
  by (induction xs) simp_all

lemma trim_unique:
  assumes pre: "list_all isWhiteSpace pre" and post: "list_all isWhiteSpace post"
    and core: "core = [] \<or> (\<not> isWhiteSpace (hd core) \<and> \<not> isWhiteSpace (last core))"
  shows "trim (pre @ core @ post) = core"
proof (cases "core = []")
  case True
  have d: "dropWhile isWhiteSpace (pre @ [] @ post) = []"
    using pre post by (simp add: list_all_iff)
  show ?thesis unfolding True trim_def d by simp
next
  case False
  with core have h: "\<not> isWhiteSpace (hd core)" and l: "\<not> isWhiteSpace (last core)" by simp_all
  from False h have 1: "dropWhile isWhiteSpace (core @ post) = core @ post"
    by (cases core) simp_all
  from False l have 2: "dropWhile isWhiteSpace (rev core) = rev core"
    by (cases "rev core") (simp_all add: hd_rev [symmetric])
  have 3: "list_all isWhiteSpace (rev post)" using post by (simp add: list_all_iff)
  have "trim (pre @ core @ post) = rev (dropWhile isWhiteSpace (rev (core @ post)))"
    unfolding trim_def dropWhile_all [OF pre] 1 ..
  also have "\<dots> = rev (dropWhile isWhiteSpace (rev core))"
    using dropWhile_all [OF 3, of "rev core"] by simp
  also have "\<dots> = core" unfolding 2 by simp
  finally show ?thesis .
qed

lemma trim_decompose:
  "\<exists>pre post. s = pre @ trim s @ post \<and> list_all isWhiteSpace pre \<and> list_all isWhiteSpace post"
proof -
  let ?ys = "dropWhile isWhiteSpace s"
  let ?pre = "takeWhile isWhiteSpace s"
  let ?post = "rev (takeWhile isWhiteSpace (rev ?ys))"
  have "rev (takeWhile isWhiteSpace (rev ?ys) @ dropWhile isWhiteSpace (rev ?ys)) = rev (rev ?ys)"
    by (simp only: takeWhile_dropWhile_id)
  then have "rev (dropWhile isWhiteSpace (rev ?ys)) @ ?post = ?ys"
    by (simp only: rev_append rev_rev_ident)
  then have "?ys = trim s @ ?post"
    by (simp only: trim_def)
  moreover have "s = ?pre @ ?ys" by simp
  ultimately have "s = ?pre @ trim s @ ?post" by simp
  moreover have "list_all isWhiteSpace ?pre"
    by (simp add: list_all_iff) (meson set_takeWhileD)
  moreover have "list_all isWhiteSpace ?post"
    by (simp add: list_all_iff) (meson set_takeWhileD)
  ultimately show ?thesis by blast
qed

lemma isWhiteSpace_code_units:
  "isWhiteSpace c \<longleftrightarrow>
     c \<in> {0x0009, 0x000A, 0x000B, 0x000C, 0x000D, 0x0020, 0x00A0, 0x1680, 0x2028, 0x2029,
           0x202F, 0x205F, 0x3000, 0xFEFF} \<or> (0x2000 \<le> c \<and> c \<le> 0x200A)"
  by (auto simp add: isWhiteSpace_def)

lemma normalized_unique:
  assumes "filter (\<lambda>c. c \<noteq> comma) raw = pre @ core @ post"
    and "list_all isWhiteSpace pre" and "list_all isWhiteSpace post"
    and "core = [] \<or> (\<not> isWhiteSpace (hd core) \<and> \<not> isWhiteSpace (last core))"
  shows "normalized raw = core"
  unfolding normalized_def removeCommas_def assms(1) using assms(2-4) by (rule trim_unique)

lemma parseMoneyInput_core:
  assumes "normalized raw = core"
  shows "parseMoneyInput toNumber raw =
           (if core = [] then None else case toNumber core of Finite v \<Rightarrow> Some v | _ \<Rightarrow> None)"
proof (cases "raw = []")
  case True
  then have "normalized raw = []"
    by (simp add: normalized_def removeCommas_def trim_def)
  with assms True show ?thesis by (simp add: parseMoneyInput_def)
next
  case False
  with assms show ?thesis by (simp add: parseMoneyInput_def)
qed

text \<open>
  C10: for every input string, \<open>parseMoneyInput\<close> removes all commas and trims
  whitespace; it returns null exactly when the original or the normalized string is
  empty or the normalized string does not convert to a finite number, and otherwise it
  returns the converted number. The normalized string is what is left of the input
  without its commas once a whitespace-only prefix and a whitespace-only suffix are
  taken off, and it is the only such string that neither starts nor ends with
  whitespace; whitespace is the set of code units listed. So \<open>'2,500,000'\<close>, also
  with whitespace around it, yields 2500000, the value of \<open>Number('2500000')\<close>. The
  statement holds whatever the conversion \<open>toNumber\<close> is.
\<close>

theorem parseMoneyInput_normalizes_and_parses:
  "comma \<notin> set (normalized raw)
   \<and> (normalized raw = [] \<or>
        (\<not> isWhiteSpace (hd (normalized raw)) \<and> \<not> isWhiteSpace (last (normalized raw))))
   \<and> normalized raw = trim (filter (\<lambda>c. c \<noteq> comma) raw)
   \<and> (\<exists>pre post. filter (\<lambda>c. c \<noteq> comma) raw = pre @ normalized raw @ post
          \<and> list_all isWhiteSpace pre \<and> list_all isWhiteSpace post)
   \<and> (filter (\<lambda>c. c \<noteq> comma) raw = pre @ core @ post
        \<and> list_all isWhiteSpace pre \<and> list_all isWhiteSpace post
        \<and> (core = [] \<or> (\<not> isWhiteSpace (hd core) \<and> \<not> isWhiteSpace (last core))) \<longrightarrow>
        normalized raw = core
        \<and> parseMoneyInput toNumber raw =
            (if core = [] then None
             else case toNumber core of Finite n \<Rightarrow> Some n | _ \<Rightarrow> None))
   \<and> (isWhiteSpace c \<longleftrightarrow>
        c \<in> {0x0009, 0x000A, 0x000B, 0x000C, 0x000D, 0x0020, 0x00A0, 0x1680, 0x2028, 0x2029,
              0x202F, 0x205F, 0x3000, 0xFEFF} \<or> (0x2000 \<le> c \<and> c \<le> 0x200A))
   \<and> (parseMoneyInput toNumber raw = None \<longleftrightarrow>
        raw = [] \<or> normalized raw = [] \<or> \<not> isFinite (toNumber (normalized raw)))
   \<and> (parseMoneyInput toNumber raw = Some v \<longleftrightarrow>
        raw \<noteq> [] \<and> normalized raw \<noteq> [] \<and> toNumber (normalized raw) = Finite v)
   \<and> (toNumber (js ''2500000'') = Finite 2500000 \<longrightarrow>
        parseMoneyInput toNumber (js ''2,500,000'') = Some 2500000
        \<and> parseMoneyInput toNumber (js '' 2,500,000 '') = Some 2500000
        \<and> parseMoneyInput toNumber ([0x0009, 0x00A0] @ js ''2,500,000'' @ [0x000A, 0xFEFF])
            = Some 2500000)"
proof -
  have ends: "normalized raw = [] \<or>
        (\<not> isWhiteSpace (hd (normalized raw)) \<and> \<not> isWhiteSpace (last (normalized raw)))"
    unfolding normalized_def by (rule trim_ends)
  have eq: "normalized raw = trim (filter (\<lambda>c. c \<noteq> comma) raw)"
    by (simp add: normalized_def removeCommas_def)
  have dec: "\<exists>pre post. filter (\<lambda>c. c \<noteq> comma) raw = pre @ normalized raw @ post
          \<and> list_all isWhiteSpace pre \<and> list_all isWhiteSpace post"
    unfolding eq by (rule trim_decompose)
  have uniq: "filter (\<lambda>c. c \<noteq> comma) raw = pre @ core @ post
        \<and> list_all isWhiteSpace pre \<and> list_all isWhiteSpace post
        \<and> (core = [] \<or> (\<not> isWhiteSpace (hd core) \<and> \<not> isWhiteSpace (last core))) \<longrightarrow>
        normalized raw = core
        \<and> parseMoneyInput toNumber raw =
            (if core = [] then None
             else case toNumber core of Finite n \<Rightarrow> Some n | _ \<Rightarrow> None)"
    using normalized_unique [of raw pre core post] parseMoneyInput_core [of raw core toNumber]
    by blast
  have ex: "toNumber (js ''2500000'') = Finite 2500000 \<longrightarrow>
        parseMoneyInput toNumber (js ''2,500,000'') = Some 2500000
        \<and> parseMoneyInput toNumber (js '' 2,500,000 '') = Some 2500000
        \<and> parseMoneyInput toNumber ([0x0009, 0x00A0] @ js ''2,500,000'' @ [0x000A, 0xFEFF])
            = Some 2500000"
    by (simp add: parseMoneyInput_def normalized_def removeCommas_def trim_def comma_def js_def
          isWhiteSpace_def)
  from ends eq dec uniq ex show ?thesis
    using comma_notin_normalized [of raw] parseMoneyInput_None [of toNumber raw]
      parseMoneyInput_Some [of toNumber raw v] isWhiteSpace_code_units [of c]
    by blast
qed

theorem parseMoneyInput_normalizes_and_parses_witness:
  "filter (\<lambda>c. c \<noteq> comma) (js '' 2,500,000 '') = js '' '' @ js ''2500000'' @ js '' ''
   \<and> list_all isWhiteSpace (js '' '')
   \<and> \<not> isWhiteSpace (hd (js ''2500000'')) \<and> \<not> isWhiteSpace (last (js ''2500000''))
   \<and> normalized (js '' 2,500,000 '') = js ''2500000''
   \<and> (\<lambda>s. if s = js ''2500000'' then Finite 2500000 else if s = js ''5'' then Finite 5 else NaN)
         (js ''2500000'') = Finite 2500000
   \<and> parseMoneyInput
         (\<lambda>s. if s = js ''2500000'' then Finite 2500000 else if s = js ''5'' then Finite 5 else NaN)
         (js '' 2,500,000 '') = Some 2500000
   \<and> parseMoneyInput
         (\<lambda>s. if s = js ''2500000'' then Finite 2500000 else if s = js ''5'' then Finite 5 else NaN)
         (js ''2,500,000'') = Some 2500000
   \<and> parseMoneyInput
         (\<lambda>s. if s = js ''2500000'' then Finite 2500000 else if s = js ''5'' then Finite 5 else NaN)
         (js '' 5 '') = Some 5
   \<and> parseMoneyInput
         (\<lambda>s. if s = js ''2500000'' then Finite 2500000 else if s = js ''5'' then Finite 5 else NaN)
         (js ''2,5'') = None
   \<and> parseMoneyInput
         (\<lambda>s. if s = js ''2500000'' then Finite 2500000 else if s = js ''5'' then Finite 5 else NaN)
         (js '' , '') = None"
  using parseMoneyInput_normalizes_and_parses
          [where raw = "js '' 2,500,000 ''" and pre = "js '' ''" and core = "js ''2500000''"
             and post = "js '' ''"
             and toNumber = "\<lambda>s. if s = js ''2500000'' then Finite 2500000
                                 else if s = js ''5'' then Finite 5 else NaN"]
        parseMoneyInput_normalizes_and_parses
          [where raw = "js '' 5 ''" and pre = "js '' ''" and core = "js ''5''"
             and post = "js '' ''"
             and toNumber = "\<lambda>s. if s = js ''2500000'' then Finite 2500000
                                 else if s = js ''5'' then Finite 5 else NaN"]
  by (simp add: parseMoneyInput_def normalized_def removeCommas_def trim_def comma_def js_def
        isWhiteSpace_def)

section \<open>Properties of the ledger form\<close>

lemma validateEntryInput_ok_iff:
  "ok (validateEntryInput N a d i t) \<longleftrightarrow>
     (\<exists>v. parseMoneyInput N a = Some v \<and> v \<noteq> 0 \<and> (t = adjustment \<or> 0 < v)
          \<and> 3 \<le> length (trim d) \<and> (requiresInvestor t \<longrightarrow> i \<noteq> []))"
  by (cases "parseMoneyInput N a")
     (auto simp add: validateEntryInput_def requiresInvestor_def Let_def)

lemma validateEntryInput_Ok:
  "validateEntryInput N a d i t = Ok v c \<Longrightarrow>
     parseMoneyInput N a = Some v \<and> c = trim d"
  by (cases "parseMoneyInput N a")
     (auto simp add: validateEntryInput_def Let_def split: if_splits)

lemma handleSubmit_sent:
  "sent (handleSubmit N ctx f) \<Longrightarrow>
     ok (validateEntryInput N (amount f) (description f) (investorId f) (entryType f))
     \<and> \<not> locked ctx"
  by (cases "validateEntryInput N (amount f) (description f) (investorId f) (entryType f)")
     (auto simp add: handleSubmit_def split: if_splits)

lemma handleUpdateEntry_sent:
  "sent (handleUpdateEntry N ctx f) \<Longrightarrow>
     (\<exists>entry. editingEntry f = Some entry
        \<and> ok (validateEntryInput N (editAmount f) (editDescription f) (editInvestorId entry)
                 (entry_type entry)))
     \<and> \<not> locked ctx \<and> status ctx \<noteq> closed"
  by (auto simp add: handleUpdateEntry_def split: option.splits if_splits validation.splits)

lemma handleDeleteEntry_sent:
  "sent (handleDeleteEntry ctx tgt) \<Longrightarrow> \<not> locked ctx \<and> canDeleteEntries ctx"
  by (auto simp add: handleDeleteEntry_def split: option.splits if_splits)

lemma closed_locked: "status ctx = closed \<Longrightarrow> locked ctx"
  by (auto simp add: status_def locked_def DEFAULT_STATUS_def split: option.splits)

lemma not_closed: "s \<noteq> closed \<longleftrightarrow> s = draft \<or> s = review"
  by (cases s) simp_all

lemmas eval_defs = validateEntryInput_def parseMoneyInput_def normalized_def removeCommas_def
  trim_def comma_def js_def isWhiteSpace_def handleSubmit_def handleUpdateEntry_def
  handleDeleteEntry_def openEdit_def locked_def status_def canEditEntries_def
  canDeleteEntries_def requiresInvestor_def editInvestorId_def DEFAULT_STATUS_def
  orGeneral_def orUndefined_def Let_def

text \<open>
  C8: for every ledger-entry submission, validation fails, and the entry is not posted,
  when the entry type requires positivity (any type other than adjustment) and the
  amount is non-positive, or when the entry type requires an investor reference
  (contribution, withdrawal or adjustment) and no investor is selected. Neither the
  submit handler nor the update handler sends a request after a failed validation.
\<close>

theorem validateEntryInput_rejects_nonpositive_and_missing_investor:
  "(type \<noteq> adjustment \<and> parseMoneyInput toNumber amountInput = Some v \<and> v \<le> 0 \<longrightarrow>
      \<not> ok (validateEntryInput toNumber amountInput descInput selectedInvestorId type))
   \<and> ((type = contribution \<or> type = withdrawal \<or> type = adjustment) \<and> selectedInvestorId = [] \<longrightarrow>
      \<not> ok (validateEntryInput toNumber amountInput descInput selectedInvestorId type))
   \<and> (\<not> ok (validateEntryInput toNumber (amount f) (description f) (investorId f) (entryType f)) \<longrightarrow>
      \<not> sent (handleSubmit toNumber ctx f))
   \<and> (editingEntry ef = Some entry
        \<and> \<not> ok (validateEntryInput toNumber (editAmount ef) (editDescription ef)
                   (editInvestorId entry) (entry_type entry)) \<longrightarrow>
      \<not> sent (handleUpdateEntry toNumber ctx ef))"
proof -
  have "type \<noteq> adjustment \<and> parseMoneyInput toNumber amountInput = Some v \<and> v \<le> 0 \<longrightarrow>
      \<not> ok (validateEntryInput toNumber amountInput descInput selectedInvestorId type)"
    by (auto simp add: validateEntryInput_ok_iff)
  moreover have "(type = contribution \<or> type = withdrawal \<or> type = adjustment) \<and> selectedInvestorId = [] \<longrightarrow>
      \<not> ok (validateEntryInput toNumber amountInput descInput selectedInvestorId type)"
    by (auto simp add: validateEntryInput_ok_iff requiresInvestor_def)
  moreover have "\<not> ok (validateEntryInput toNumber (amount f) (description f) (investorId f) (entryType f)) \<longrightarrow>
      \<not> sent (handleSubmit toNumber ctx f)"
    using handleSubmit_sent by blast
  moreover have "editingEntry ef = Some entry
        \<and> \<not> ok (validateEntryInput toNumber (editAmount ef) (editDescription ef)
                   (editInvestorId entry) (entry_type entry)) \<longrightarrow>
      \<not> sent (handleUpdateEntry toNumber ctx ef)"
    using handleUpdateEntry_sent by fastforce
  ultimately show ?thesis by blast
qed

theorem validateEntryInput_rejects_nonpositive_and_missing_investor_witness:
  "income \<noteq> adjustment
   \<and> parseMoneyInput (\<lambda>s. if s = js ''-5'' then Finite (- 5)
            else if s = js ''2500000'' then Finite 2500000 else NaN) (js ''-5'') = Some (- 5)
   \<and> (- 5 :: rat) \<le> 0
   \<and> \<not> ok (validateEntryInput (\<lambda>s. if s = js ''-5'' then Finite (- 5)
            else if s = js ''2500000'' then Finite 2500000 else NaN)
              (js ''-5'') (js ''Bank fee'') [] income)
   \<and> \<not> ok (validateEntryInput (\<lambda>s. if s = js ''-5'' then Finite (- 5)
            else if s = js ''2500000'' then Finite 2500000 else NaN)
              (js ''2,500,000'') (js ''Deposit'') [] contribution)
   \<and> parseMoneyInput (\<lambda>s. if s = js ''-5'' then Finite (- 5)
            else if s = js ''2500000'' then Finite 2500000 else NaN)
        (js ''2,500,000'') = Some 2500000
   \<and> validateEntryInput (\<lambda>s. if s = js ''-5'' then Finite (- 5)
            else if s = js ''2500000'' then Finite 2500000 else NaN)
        (js ''2,500,000'') (js ''Deposit'') [] contribution
      = Fail ''Select an investor for contribution entries so allocations remain auditable.''
   \<and> \<not> sent (handleSubmit (\<lambda>s. if s = js ''-5'' then Finite (- 5)
            else if s = js ''2500000'' then Finite 2500000 else NaN)
        \<lparr> selectedClubId = Some 1, selectedPeriodId = Some 7, selectedPeriod = Some draft,
          periodState = Some draft, closeChecklist = None \<rparr>
        \<lparr> entryType = income, amount = js ''-5'', description = js ''Bank fee'',
          category = js ''general'', txDate = [], noteInput = [], reference = [],
          investorId = [] \<rparr>)
   \<and> \<not> sent (handleUpdateEntry (\<lambda>s. if s = js ''-5'' then Finite (- 5)
            else if s = js ''2500000'' then Finite 2500000 else NaN)
        \<lparr> selectedClubId = Some 1, selectedPeriodId = Some 7, selectedPeriod = Some draft,
          periodState = Some draft, closeChecklist = None \<rparr>
        \<lparr> editingEntry = Some \<lparr> entry_id = 3, investor_id = None, entry_type = income \<rparr>,
          editAmount = js ''-5'', editDescription = js ''Bank fee'', editCategory = [],
          editTxDate = [], editReference = [], editNote = [] \<rparr>)"
  using validateEntryInput_rejects_nonpositive_and_missing_investor
    [where type = income and toNumber = "\<lambda>s. if s = js ''-5'' then Finite (- 5)
                            else if s = js ''2500000'' then Finite 2500000 else NaN"
       and amountInput = "js ''-5''" and v = "- 5" and descInput = "js ''Bank fee''"
       and selectedInvestorId = "[]"
       and ctx = "\<lparr> selectedClubId = Some 1, selectedPeriodId = Some 7,
                    selectedPeriod = Some draft, periodState = Some draft,
                    closeChecklist = None \<rparr>"
       and f = "\<lparr> entryType = income, amount = js ''-5'', description = js ''Bank fee'',
                  category = js ''general'', txDate = [], noteInput = [], reference = [],
                  investorId = [] \<rparr>"
       and ef = "\<lparr> editingEntry = Some \<lparr> entry_id = 3, investor_id = None, entry_type = income \<rparr>,
                   editAmount = js ''-5'', editDescription = js ''Bank fee'', editCategory = [],
                   editTxDate = [], editReference = [], editNote = [] \<rparr>"
       and entry = "\<lparr> entry_id = 3, investor_id = None, entry_type = income \<rparr>"]
    validateEntryInput_rejects_nonpositive_and_missing_investor
    [where type = contribution and toNumber = "\<lambda>s. if s = js ''-5'' then Finite (- 5)
                            else if s = js ''2500000'' then Finite 2500000 else NaN"
       and amountInput = "js ''2,500,000''" and descInput = "js ''Deposit''"
       and selectedInvestorId = "[]"]
  by (simp add: eval_defs)

text \<open>
  C9: for every entry type, adjustment included, validation rejects an amount equal to
  zero and rejects every description whose trimmed length is below 3; an input that
  passes is returned with the description trimmed and with the amount converted from
  the comma-stripped, trimmed input. The trimmed description and the stripped amount
  are also given without the names of the model: whenever the description is a core
  between whitespace-only ends, the core is what is measured and returned, and whenever
  the amount input without its commas is a core between whitespace-only ends, the core
  is what is converted.
\<close>

theorem validateEntryInput_zero_description_and_result:
  "(parseMoneyInput toNumber amountInput = Some 0 \<longrightarrow>
      \<not> ok (validateEntryInput toNumber amountInput descInput selectedInvestorId type))
   \<and> (length (trim descInput) < 3 \<longrightarrow>
      \<not> ok (validateEntryInput toNumber amountInput descInput selectedInvestorId type))
   \<and> (validateEntryInput toNumber amountInput descInput selectedInvestorId type = Ok a d \<longrightarrow>
      d = trim descInput \<and> parseMoneyInput toNumber amountInput = Some a
      \<and> toNumber (trim (removeCommas amountInput)) = Finite a)
   \<and> (filter (\<lambda>c. c \<noteq> comma) amountInput = pre @ core @ post
        \<and> list_all isWhiteSpace pre \<and> list_all isWhiteSpace post
        \<and> (core = [] \<or> (\<not> isWhiteSpace (hd core) \<and> \<not> isWhiteSpace (last core))) \<longrightarrow>
      (toNumber core = Finite 0 \<longrightarrow>
         \<not> ok (validateEntryInput toNumber amountInput descInput selectedInvestorId type))
      \<and> (validateEntryInput toNumber amountInput descInput selectedInvestorId type = Ok a d \<longrightarrow>
         core \<noteq> [] \<and> toNumber core = Finite a \<and> a \<noteq> 0))
   \<and> (descInput = dpre @ dcore @ dpost
        \<and> list_all isWhiteSpace dpre \<and> list_all isWhiteSpace dpost
        \<and> (dcore = [] \<or> (\<not> isWhiteSpace (hd dcore) \<and> \<not> isWhiteSpace (last dcore))) \<longrightarrow>
      (length dcore < 3 \<longrightarrow>
         \<not> ok (validateEntryInput toNumber amountInput descInput selectedInvestorId type))
      \<and> (validateEntryInput toNumber amountInput descInput selectedInvestorId type = Ok a d \<longrightarrow>
         d = dcore \<and> 3 \<le> length dcore))
   \<and> (toNumber (js ''2500000'') = Finite 2500000 \<longrightarrow>
        validateEntryInput toNumber (js '' 2,500,000 '') (js '' Monthly fee '') (js ''4'') adjustment
          = Ok 2500000 (js ''Monthly fee''))"
proof -
  let ?v = "validateEntryInput toNumber amountInput descInput selectedInvestorId type"
  have okr: "?v = Ok a d \<longrightarrow>
      d = trim descInput \<and> parseMoneyInput toNumber amountInput = Some a
      \<and> toNumber (trim (removeCommas amountInput)) = Finite a"
    using validateEntryInput_Ok [of toNumber amountInput descInput selectedInvestorId type a d]
          parseMoneyInput_Some [of toNumber amountInput a]
    by (auto simp add: normalized_def)
  have zero: "parseMoneyInput toNumber amountInput = Some 0 \<longrightarrow> \<not> ok ?v"
    and short: "length (trim descInput) < 3 \<longrightarrow> \<not> ok ?v"
    by (auto simp add: validateEntryInput_ok_iff)
  have okv: "?v = Ok a d \<longrightarrow> ok ?v" by simp
  have amt: "filter (\<lambda>c. c \<noteq> comma) amountInput = pre @ core @ post
        \<and> list_all isWhiteSpace pre \<and> list_all isWhiteSpace post
        \<and> (core = [] \<or> (\<not> isWhiteSpace (hd core) \<and> \<not> isWhiteSpace (last core))) \<longrightarrow>
      (toNumber core = Finite 0 \<longrightarrow> \<not> ok ?v)
      \<and> (?v = Ok a d \<longrightarrow> core \<noteq> [] \<and> toNumber core = Finite a \<and> a \<noteq> 0)"
  proof (intro impI, elim conjE)
    assume h: "filter (\<lambda>c. c \<noteq> comma) amountInput = pre @ core @ post"
      "list_all isWhiteSpace pre" "list_all isWhiteSpace post"
      "core = [] \<or> (\<not> isWhiteSpace (hd core) \<and> \<not> isWhiteSpace (last core))"
    then have n: "normalized amountInput = core" by (rule normalized_unique)
    have p: "parseMoneyInput toNumber amountInput =
           (if core = [] then None else case toNumber core of Finite v \<Rightarrow> Some v | _ \<Rightarrow> None)"
      using n by (rule parseMoneyInput_core)
    have 1: "toNumber core = Finite 0 \<longrightarrow> \<not> ok ?v"
      using p by (auto simp add: validateEntryInput_ok_iff)
    have 2: "?v = Ok a d \<longrightarrow> core \<noteq> [] \<and> toNumber core = Finite a \<and> a \<noteq> 0"
    proof
      assume v: "?v = Ok a d"
      with okr have "parseMoneyInput toNumber amountInput = Some a" by simp
      with n have "core \<noteq> [] \<and> toNumber core = Finite a"
        by (simp add: parseMoneyInput_Some)
      moreover from v zero \<open>parseMoneyInput toNumber amountInput = Some a\<close> have "a \<noteq> 0"
        by auto
      ultimately show "core \<noteq> [] \<and> toNumber core = Finite a \<and> a \<noteq> 0" by simp
    qed
    from 1 2 show "(toNumber core = Finite 0 \<longrightarrow> \<not> ok ?v)
      \<and> (?v = Ok a d \<longrightarrow> core \<noteq> [] \<and> toNumber core = Finite a \<and> a \<noteq> 0)" ..
  qed
  have desc: "descInput = dpre @ dcore @ dpost
        \<and> list_all isWhiteSpace dpre \<and> list_all isWhiteSpace dpost
        \<and> (dcore = [] \<or> (\<not> isWhiteSpace (hd dcore) \<and> \<not> isWhiteSpace (last dcore))) \<longrightarrow>
      (length dcore < 3 \<longrightarrow> \<not> ok ?v) \<and> (?v = Ok a d \<longrightarrow> d = dcore \<and> 3 \<le> length dcore)"
  proof (intro impI, elim conjE)
    assume h: "descInput = dpre @ dcore @ dpost"
      "list_all isWhiteSpace dpre" "list_all isWhiteSpace dpost"
      "dcore = [] \<or> (\<not> isWhiteSpace (hd dcore) \<and> \<not> isWhiteSpace (last dcore))"
    have t: "trim descInput = dcore"
      unfolding h(1) using h(2-4) by (rule trim_unique)
    show "(length dcore < 3 \<longrightarrow> \<not> ok ?v) \<and> (?v = Ok a d \<longrightarrow> d = dcore \<and> 3 \<le> length dcore)"
      using short okr okv unfolding t by (auto simp add: not_less [symmetric])
  qed
  have ex: "toNumber (js ''2500000'') = Finite 2500000 \<longrightarrow>
        validateEntryInput toNumber (js '' 2,500,000 '') (js '' Monthly fee '') (js ''4'') adjustment
          = Ok 2500000 (js ''Monthly fee'')"
    by (simp add: eval_defs)
  from zero short okr amt desc ex show ?thesis by blast
qed

theorem validateEntryInput_zero_description_and_result_witness:
  "filter (\<lambda>c. c \<noteq> comma) (js '' 0, '') = js '' '' @ js ''0'' @ js '' ''
   \<and> list_all isWhiteSpace (js '' '')
   \<and> \<not> isWhiteSpace (hd (js ''0'')) \<and> \<not> isWhiteSpace (last (js ''0''))
   \<and> (\<lambda>s. if s = js ''2500000'' then Finite 2500000 else if s = js ''0'' then Finite 0 else NaN)
        (js ''0'') = Finite 0
   \<and> parseMoneyInput
        (\<lambda>s. if s = js ''2500000'' then Finite 2500000 else if s = js ''0'' then Finite 0 else NaN)
        (js '' 0, '') = Some 0
   \<and> \<not> ok (validateEntryInput
        (\<lambda>s. if s = js ''2500000'' then Finite 2500000 else if s = js ''0'' then Finite 0 else NaN)
        (js '' 0, '') (js ''Correction'') (js ''4'') adjustment)
   \<and> js '' ab '' = js '' '' @ js ''ab'' @ js '' ''
   \<and> \<not> isWhiteSpace (hd (js ''ab'')) \<and> \<not> isWhiteSpace (last (js ''ab''))
   \<and> length (js ''ab'') < 3
   \<and> length (trim (js '' ab '')) < 3
   \<and> \<not> ok (validateEntryInput
        (\<lambda>s. if s = js ''2500000'' then Finite 2500000 else if s = js ''0'' then Finite 0 else NaN)
        (js '' 2,500,000 '') (js '' ab '') (js ''4'') adjustment)
   \<and> filter (\<lambda>c. c \<noteq> comma) (js '' 2,500,000 '') = js '' '' @ js ''2500000'' @ js '' ''
   \<and> js '' Monthly fee '' = js '' '' @ js ''Monthly fee'' @ js '' ''
   \<and> validateEntryInput
        (\<lambda>s. if s = js ''2500000'' then Finite 2500000 else if s = js ''0'' then Finite 0 else NaN)
        (js '' 2,500,000 '') (js '' Monthly fee '') (js ''4'') adjustment
      = Ok 2500000 (js ''Monthly fee'')
   \<and> js ''Monthly fee'' = trim (js '' Monthly fee '')"
  using validateEntryInput_zero_description_and_result
    [where toNumber = "\<lambda>s. if s = js ''2500000'' then Finite 2500000
                            else if s = js ''0'' then Finite 0 else NaN"
       and amountInput = "js '' 0, ''" and descInput = "js ''Correction''"
       and selectedInvestorId = "js ''4''" and type = adjustment
       and pre = "js '' ''" and core = "js ''0''" and post = "js '' ''"]
    validateEntryInput_zero_description_and_result
    [where toNumber = "\<lambda>s. if s = js ''2500000'' then Finite 2500000
                            else if s = js ''0'' then Finite 0 else NaN"
       and amountInput = "js '' 2,500,000 ''" and descInput = "js '' ab ''"
       and selectedInvestorId = "js ''4''" and type = adjustment
       and dpre = "js '' ''" and dcore = "js ''ab''" and dpost = "js '' ''"]
    validateEntryInput_zero_description_and_result
    [where toNumber = "\<lambda>s. if s = js ''2500000'' then Finite 2500000
                            else if s = js ''0'' then Finite 0 else NaN"
       and amountInput = "js '' 2,500,000 ''" and descInput = "js '' Monthly fee ''"
       and selectedInvestorId = "js ''4''" and type = adjustment
       and a = 2500000 and d = "js ''Monthly fee''"
       and pre = "js '' ''" and core = "js ''2500000''" and post = "js '' ''"
       and dpre = "js '' ''" and dcore = "js ''Monthly fee''" and dpost = "js '' ''"]
  by (simp add: eval_defs)

text \<open>
  C7: for every period status, a ledger entry can be put under edit and updated only
  while the status is draft or review, and deleted only while the status is draft; when
  the period is closed (by its status, or by the \<open>locked\<close> flag) no create, update or
  delete request for its ledger entries is sent, and no entry is opened for edit.
\<close>

theorem ledger_entries_mutable_by_status:
  "(openEdit ctx entry \<noteq> None \<longrightarrow> status ctx = draft \<or> status ctx = review)
   \<and> (sent (handleUpdateEntry toNumber ctx ef) \<longrightarrow> status ctx = draft \<or> status ctx = review)
   \<and> (sent (handleDeleteEntry ctx deleteTarget) \<longrightarrow> status ctx = draft)
   \<and> (status ctx = closed \<or> locked ctx \<longrightarrow>
        \<not> sent (handleSubmit toNumber ctx f)
        \<and> \<not> sent (handleUpdateEntry toNumber ctx ef)
        \<and> \<not> sent (handleDeleteEntry ctx deleteTarget)
        \<and> openEdit ctx entry = None)"
proof -
  have "openEdit ctx entry \<noteq> None \<longrightarrow> status ctx = draft \<or> status ctx = review"
    by (auto simp add: openEdit_def canEditEntries_def split: if_splits)
  moreover have "sent (handleUpdateEntry toNumber ctx ef) \<longrightarrow> status ctx = draft \<or> status ctx = review"
    using handleUpdateEntry_sent [of toNumber ctx ef] not_closed [of "status ctx"] by blast
  moreover have "sent (handleDeleteEntry ctx deleteTarget) \<longrightarrow> status ctx = draft"
    using handleDeleteEntry_sent [of ctx deleteTarget] by (simp add: canDeleteEntries_def)
  moreover have "locked ctx \<longrightarrow>
        \<not> sent (handleSubmit toNumber ctx f)
        \<and> \<not> sent (handleUpdateEntry toNumber ctx ef)
        \<and> \<not> sent (handleDeleteEntry ctx deleteTarget)
        \<and> openEdit ctx entry = None"
    using handleSubmit_sent [of toNumber ctx f] handleUpdateEntry_sent [of toNumber ctx ef]
          handleDeleteEntry_sent [of ctx deleteTarget]
    by (auto simp add: openEdit_def)
  ultimately show ?thesis using closed_locked [of ctx] by blast
qed


theorem ledger_entries_mutable_by_status_witness:
  "sent (handleDeleteEntry
      \<lparr> selectedClubId = Some 1, selectedPeriodId = Some 7, selectedPeriod = Some draft,
        periodState = Some draft, closeChecklist = None \<rparr>
      (Some \<lparr> entry_id = 3, investor_id = Some 4, entry_type = contribution \<rparr>))
   \<and> status \<lparr> selectedClubId = Some 1, selectedPeriodId = Some 7, selectedPeriod = Some draft,
        periodState = Some draft, closeChecklist = None \<rparr> = draft
   \<and> openEdit
        \<lparr> selectedClubId = Some 1, selectedPeriodId = Some 7, selectedPeriod = Some review,
          periodState = Some review, closeChecklist = None \<rparr>
        \<lparr> entry_id = 3, investor_id = Some 4, entry_type = contribution \<rparr> \<noteq> None
   \<and> sent (handleUpdateEntry (\<lambda>s. Finite 2500000)
        \<lparr> selectedClubId = Some 1, selectedPeriodId = Some 7, selectedPeriod = Some review,
          periodState = Some review, closeChecklist = None \<rparr>
        \<lparr> editingEntry = Some \<lparr> entry_id = 3, investor_id = Some 4, entry_type = contribution \<rparr>,
          editAmount = js ''2,500,000'', editDescription = js ''Deposit'', editCategory = [],
          editTxDate = [], editReference = [], editNote = [] \<rparr>)
   \<and> status \<lparr> selectedClubId = Some 1, selectedPeriodId = Some 7, selectedPeriod = Some closed,
        periodState = Some closed, closeChecklist = None \<rparr> = closed
   \<and> \<not> sent (handleSubmit (\<lambda>s. Finite 2500000)
        \<lparr> selectedClubId = Some 1, selectedPeriodId = Some 7, selectedPeriod = Some closed,
          periodState = Some closed, closeChecklist = None \<rparr>
        \<lparr> entryType = contribution, amount = js ''2,500,000'', description = js ''Deposit'',
          category = js ''general'', txDate = [], noteInput = [], reference = [],
          investorId = js ''4'' \<rparr>)
   \<and> \<not> sent (handleUpdateEntry (\<lambda>s. Finite 2500000)
        \<lparr> selectedClubId = Some 1, selectedPeriodId = Some 7, selectedPeriod = Some closed,
          periodState = Some closed, closeChecklist = None \<rparr>
        \<lparr> editingEntry = Some \<lparr> entry_id = 3, investor_id = Some 4, entry_type = contribution \<rparr>,
          editAmount = js ''2,500,000'', editDescription = js ''Deposit'', editCategory = [],
          editTxDate = [], editReference = [], editNote = [] \<rparr>)
   \<and> \<not> sent (handleDeleteEntry
        \<lparr> selectedClubId = Some 1, selectedPeriodId = Some 7, selectedPeriod = Some closed,
          periodState = Some closed, closeChecklist = None \<rparr>
        (Some \<lparr> entry_id = 3, investor_id = Some 4, entry_type = contribution \<rparr>))"
  using ledger_entries_mutable_by_status
    [where ctx = "\<lparr> selectedClubId = Some 1, selectedPeriodId = Some 7,
                    selectedPeriod = Some draft, periodState = Some draft,
                    closeChecklist = None \<rparr>"
       and deleteTarget = "Some \<lparr> entry_id = 3, investor_id = Some 4, entry_type = contribution \<rparr>"]
    ledger_entries_mutable_by_status
    [where ctx = "\<lparr> selectedClubId = Some 1, selectedPeriodId = Some 7,
                    selectedPeriod = Some review, periodState = Some review,
                    closeChecklist = None \<rparr>"
       and toNumber = "\<lambda>s. Finite 2500000"
       and entry = "\<lparr> entry_id = 3, investor_id = Some 4, entry_type = contribution \<rparr>"
       and ef = "\<lparr> editingEntry = Some \<lparr> entry_id = 3, investor_id = Some 4, entry_type = contribution \<rparr>,
          editAmount = js ''2,500,000'', editDescription = js ''Deposit'', editCategory = [],
          editTxDate = [], editReference = [], editNote = [] \<rparr>"]
    ledger_entries_mutable_by_status
    [where ctx = "\<lparr> selectedClubId = Some 1, selectedPeriodId = Some 7,
                    selectedPeriod = Some closed, periodState = Some closed,
                    closeChecklist = None \<rparr>"
       and toNumber = "\<lambda>s. Finite 2500000"
       and f = "\<lparr> entryType = contribution, amount = js ''2,500,000'', description = js ''Deposit'',
          category = js ''general'', txDate = [], noteInput = [], reference = [],
          investorId = js ''4'' \<rparr>"
       and ef = "\<lparr> editingEntry = Some \<lparr> entry_id = 3, investor_id = Some 4, entry_type = contribution \<rparr>,
          editAmount = js ''2,500,000'', editDescription = js ''Deposit'', editCategory = [],
          editTxDate = [], editReference = [], editNote = [] \<rparr>"
       and deleteTarget = "Some \<lparr> entry_id = 3, investor_id = Some 4, entry_type = contribution \<rparr>"]
  by (simp add: eval_defs)


section \<open>Properties of the arithmetic of \<open>number\<close>\<close>

lemma overflowThreshold_numeral [code]:
  "overflowThreshold =
     179769313486231590772930519078902473361797697894230657273430081157732675805500963132708477322407536021120113879871393357658789768814416622492847430639474124377767893424865485276302219601246094119453082952085005768838150682342462881473913110540827237163350510684586298239947245938479716304835356329624224137216"
  unfolding overflowThreshold_def by simp

lemma roundTiesToEven_error: "\<bar>of_int (roundTiesToEven y) - y\<bar> \<le> 1 / 2"
proof -
  have "of_int \<lfloor>y\<rfloor> \<le> y" "y < of_int \<lfloor>y\<rfloor> + 1"
    by linarith+
  then show ?thesis
    by (auto simp add: roundTiesToEven_def Let_def)
qed

lemma roundTiesToEven_of_int: "roundTiesToEven (of_int k) = k"
  by (simp add: roundTiesToEven_def)

lemma ilog2_le:
  assumes "0 < x"
  shows "2 powi (ilog2 x) \<le> x"
proof -
  obtain a b where q: "quotient_of x = (a, b)" by (cases "quotient_of x")
  then have b: "0 < b" and x: "x = of_int a / of_int b"
    by (simp_all add: quotient_of_denom_pos quotient_of_div)
  from assms b x have a: "0 < a"
    by (simp add: zero_less_divide_iff)
  let ?d = "bitlen a - bitlen b"
  show ?thesis
  proof (cases "2 powi ?d \<le> x")
    case True
    then show ?thesis by (simp add: ilog2_def q)
  next
    case False
    from a have la: "1 \<le> bitlen a" by (simp add: bitlen_alt_def)
    from b have lb: "1 \<le> bitlen b" by (simp add: bitlen_alt_def)
    from bitlen_bounds [OF a] have "(2::int) ^ nat (bitlen a - 1) \<le> a" by simp
    then have "(of_int ((2::int) ^ nat (bitlen a - 1)) :: rat) \<le> of_int a"
      by (simp only: of_int_le_iff)
    then have 1: "(2::rat) powi (bitlen a - 1) \<le> of_int a"
      using la by (simp add: power_int_def)
    from bitlen_bounds [OF b] have "b \<le> (2::int) ^ nat (bitlen b)" by simp
    then have "(of_int b :: rat) \<le> of_int ((2::int) ^ nat (bitlen b))"
      by (simp only: of_int_le_iff)
    then have 2: "of_int b \<le> (2::rat) powi (bitlen b)"
      using lb by (simp add: power_int_def)
    have "?d - 1 = (bitlen a - 1) - bitlen b" by simp
    then have "(2::rat) powi (?d - 1) = 2 powi (bitlen a - 1) / 2 powi (bitlen b)"
      by (simp only: power_int_diff [of "2::rat" "bitlen a - 1" "bitlen b", simplified])
    also have "\<dots> \<le> of_int a / of_int b"
      using 1 2 a b by (intro frac_le) simp_all
    finally have "(2::rat) powi (?d - 1) \<le> x" by (simp add: x)
    with False show ?thesis by (simp add: ilog2_def q)
  qed
qed

lemma ilog2_less:
  assumes "0 < x"
  shows "x < 2 powi (ilog2 x + 1)"
proof -
  obtain a b where q: "quotient_of x = (a, b)" by (cases "quotient_of x")
  then have b: "0 < b" and x: "x = of_int a / of_int b"
    by (simp_all add: quotient_of_denom_pos quotient_of_div)
  from assms b x have a: "0 < a"
    by (simp add: zero_less_divide_iff)
  let ?d = "bitlen a - bitlen b"
  show ?thesis
  proof (cases "2 powi ?d \<le> x")
    case False
    then show ?thesis by (simp add: ilog2_def q)
  next
    case True
    from a have la: "1 \<le> bitlen a" by (simp add: bitlen_alt_def)
    from b have lb: "1 \<le> bitlen b" by (simp add: bitlen_alt_def)
    from bitlen_bounds [OF a] have "a < (2::int) ^ nat (bitlen a)" by simp
    then have "(of_int a :: rat) < of_int ((2::int) ^ nat (bitlen a))"
      by (simp only: of_int_less_iff)
    then have 1: "of_int a < (2::rat) powi (bitlen a)"
      using la by (simp add: power_int_def)
    from bitlen_bounds [OF b] have "(2::int) ^ nat (bitlen b - 1) \<le> b" by simp
    then have "(of_int ((2::int) ^ nat (bitlen b - 1)) :: rat) \<le> of_int b"
      by (simp only: of_int_le_iff)
    then have 2: "(2::rat) powi (bitlen b - 1) \<le> of_int b"
      using lb by (simp add: power_int_def)
    have p: "(0::rat) < 2 powi (bitlen b - 1)" by (rule zero_less_power_int) simp
    have "(of_int a :: rat) / of_int b < 2 powi (bitlen a) / 2 powi (bitlen b - 1)"
      using 1 2 a b p by (intro frac_less) simp_all
    also have "?d + 1 = bitlen a - (bitlen b - 1)" by simp
    then have "2 powi (bitlen a) / 2 powi (bitlen b - 1) = (2::rat) powi (?d + 1)"
      by (simp only: power_int_diff [of "2::rat" "bitlen a" "bitlen b - 1", simplified])
    finally have "x < 2 powi (?d + 1)" by (simp add: x)
    with True show ?thesis by (simp add: ilog2_def q)
  qed
qed

lemma abs_sgn_mult_diff:
  fixes x m :: rat
  assumes "x \<noteq> 0"
  shows "\<bar>sgn x * m - x\<bar> = \<bar>m - \<bar>x\<bar>\<bar>"
  using assms by (cases "0 < x") (simp_all add: sgn_if abs_if)

lemma quantum_half_le:
  assumes "2 powi (- 1022) \<le> a" "0 < a"
  shows "2 powi (max (ilog2 a) (- 1022) - 52) / 2 \<le> a / 2 ^ 53"
proof -
  let ?e = "max (ilog2 a) (- 1022)"
  have "(2::rat) powi ?e \<le> a"
    using assms ilog2_le [of a] by (simp add: max_def)
  moreover have "(2::rat) powi (?e - 52) / 2 = 2 powi ?e / 2 ^ 53"
    by (simp add: power_int_diff)
  ultimately show ?thesis
    by (simp add: divide_right_mono)
qed

lemma roundToDouble_unfold:
  assumes "x \<noteq> 0"
  shows "roundToDouble x =
     (let m = of_int (roundTiesToEven (\<bar>x\<bar> / 2 powi (max (ilog2 \<bar>x\<bar>) (- 1022) - 52)))
                * 2 powi (max (ilog2 \<bar>x\<bar>) (- 1022) - 52)
      in if 2 ^ 1024 \<le> m then signedInfinity (x < 0)
         else if m = 0 then signedZero (x < 0) else Num (sgn x * m))"
  using assms unfolding roundToDouble_def overflowThreshold_def Let_def by (simp only: if_False)

lemma roundToDouble_normal:
  assumes "2 powi (- 1022) \<le> \<bar>x\<bar>"
  shows "roundToDouble x = PlusInfinity \<or> roundToDouble x = MinusInfinity
         \<or> (\<exists>w. roundToDouble x = Num w \<and> \<bar>w - x\<bar> \<le> \<bar>x\<bar> / 2 ^ 53)"
proof -
  define a where "a = \<bar>x\<bar>"
  define q :: rat where "q = 2 powi (max (ilog2 a) (- 1022) - 52)"
  define r :: rat where "r = of_int (roundTiesToEven (a / q))"
  define m where "m = r * q"
  have "(0::rat) < 2 powi (- 1022)" by (rule zero_less_power_int) simp
  with assms have a: "0 < a" unfolding a_def by linarith
  then have x: "x \<noteq> 0" unfolding a_def by simp
  have q: "0 < q" unfolding q_def by (rule zero_less_power_int) simp
  have "m - a = (r - a / q) * q"
    using q unfolding m_def by (simp add: left_diff_distrib)
  then have "\<bar>m - a\<bar> = \<bar>r - a / q\<bar> * \<bar>q\<bar>"
    by (simp only: abs_mult)
  also have "\<dots> = \<bar>r - a / q\<bar> * q"
    using q by simp
  also have "\<dots> \<le> (1 / 2) * q"
    using q roundTiesToEven_error [of "a / q"] unfolding r_def
    by (intro mult_right_mono) simp_all
  also have "\<dots> \<le> a / 2 ^ 53"
    using quantum_half_le [of a] assms a unfolding q_def a_def by simp
  finally have err: "\<bar>m - a\<bar> \<le> a / 2 ^ 53" .
  have "a / 2 ^ 53 < a"
  proof -
    have "a / 2 ^ 53 < a / 1"
      using a by (intro divide_strict_left_mono) simp_all
    then show ?thesis by simp
  qed
  with err have m: "m \<noteq> 0" by linarith
  have "\<bar>sgn x * m - x\<bar> = \<bar>m - a\<bar>"
    unfolding a_def using x by (rule abs_sgn_mult_diff)
  then have w: "\<bar>sgn x * m - x\<bar> \<le> \<bar>x\<bar> / 2 ^ 53"
    using err unfolding a_def by simp
  have unf: "roundToDouble x =
      (if 2 ^ 1024 \<le> m then signedInfinity (x < 0)
       else if m = 0 then signedZero (x < 0) else Num (sgn x * m))"
    unfolding roundToDouble_unfold [OF x] Let_def m_def r_def q_def a_def ..
  show ?thesis
  proof (cases "2 ^ 1024 \<le> m")
    case True
    then have "roundToDouble x = signedInfinity (x < 0)"
      unfolding unf by (simp only: if_True)
    then show ?thesis
      by (cases "x < 0") (simp_all only: signedInfinity_def if_True if_False simp_thms)
  next
    case False
    then have "roundToDouble x = Num (sgn x * m)"
      unfolding unf using m by (simp only: if_False)
    with w show ?thesis by blast
  qed
qed

lemma roundToDouble_of_int:
  assumes "k \<noteq> 0" "\<bar>k\<bar> \<le> 2 ^ 53"
  shows "roundToDouble (of_int k) = Num (of_int k)"
proof -
  define a :: rat where "a = \<bar>of_int k\<bar>"
  define t where "t = max (ilog2 a) (- 1022) - 52"
  define q :: rat where "q = 2 powi t"
  have a0: "0 < a" using assms(1) unfolding a_def by simp
  have "a = of_int \<bar>k\<bar>" unfolding a_def by simp
  also have "\<dots> \<le> of_int (2 ^ 53)" using assms(2) by (simp only: of_int_le_iff)
  finally have a53: "a \<le> 2 ^ 53" by simp
  have q: "0 < q" unfolding q_def by (rule zero_less_power_int) simp
  have e: "ilog2 a \<le> 53"
  proof (rule ccontr)
    assume "\<not> ilog2 a \<le> 53"
    then have "54 \<le> ilog2 a" by simp
    then have "(2::rat) powi 54 \<le> 2 powi (ilog2 a)"
      by (intro power_int_increasing) simp_all
    also have "\<dots> \<le> a" using a0 by (rule ilog2_le)
    finally show False using a53 by simp
  qed
  have "\<exists>j::int. a / q = of_int j"
  proof (cases "t \<le> 0")
    case True
    then have "q = inverse 2 ^ nat (- t)"
      unfolding q_def by (cases "t = 0") (simp_all add: power_int_def)
    then have "q = inverse (2 ^ nat (- t))"
      by (simp only: power_inverse)
    then have "inverse q = 2 ^ nat (- t)"
      by (simp only: inverse_inverse_eq)
    then have "a / q = a * 2 ^ nat (- t)"
      by (simp only: divide_inverse)
    also have "\<dots> = of_int (\<bar>k\<bar> * 2 ^ nat (- t))"
      unfolding a_def by simp
    finally have "a / q = of_int (\<bar>k\<bar> * 2 ^ nat (- t))" .
    then show ?thesis by blast
  next
    case False
    with e have t: "t = 1" unfolding t_def by (simp add: max_def split: if_splits)
    then have "ilog2 a = 53" unfolding t_def by (simp add: max_def split: if_splits)
    then have "(2::rat) ^ 53 \<le> a" using ilog2_le [OF a0] by simp
    with a53 have "a = 2 ^ 53" by simp
    with t have "a / q = of_int (2 ^ 52)" unfolding q_def by simp
    then show ?thesis by blast
  qed
  then obtain j :: int where j: "a / q = of_int j" ..
  have m: "of_int (roundTiesToEven (a / q)) * q = a"
    unfolding j roundTiesToEven_of_int unfolding j [symmetric] using q by simp
  have "(2::rat) ^ 53 < 2 ^ 1024" by (rule power_strict_increasing) simp_all
  with a53 have lt: "\<not> 2 ^ 1024 \<le> a" by linarith
  have s: "sgn (of_int k :: rat) * a = of_int k"
    unfolding a_def by (simp add: sgn_if abs_if)
  have x: "(of_int k :: rat) \<noteq> 0" using assms(1) by simp
  have "roundToDouble (of_int k) =
     (if 2 ^ 1024 \<le> a then signedInfinity (of_int k < (0::rat))
         else if a = 0 then signedZero (of_int k < (0::rat)) else Num (sgn (of_int k) * a))"
    unfolding roundToDouble_unfold [OF x] Let_def
    unfolding a_def [symmetric] t_def [symmetric] q_def [symmetric] m ..
  also have "\<dots> = Num (sgn (of_int k) * a)"
    using lt a0 by (simp only: if_False less_irrefl [THEN eq_False [THEN iffD2]]) auto
  finally show ?thesis unfolding s .
qed

lemma fdiv_Num:
  "x \<noteq> 0 \<Longrightarrow> y \<noteq> 0 \<Longrightarrow> fdiv (Num x) (Num y) = roundToDouble (x / y)"
  by simp

lemma fmul_Num:
  "x \<noteq> 0 \<Longrightarrow> y \<noteq> 0 \<Longrightarrow> fmul (Num x) (Num y) = roundToDouble (x * y)"
  by simp

lemma fadd_Num:
  "fadd (Num x) (Num y) = (if x + y = 0 then Num 0 else roundToDouble (x + y))"
  by (simp add: Let_def)

lemma fsub_Num:
  "fsub (Num x) (Num y) = (if x - y = 0 then Num 0 else roundToDouble (x - y))"
  by (simp add: fsub_def Let_def)

lemma fmul_infinite: "isInfinite x \<or> isInfinite y \<Longrightarrow> fmul x y \<noteq> Num w"
  by (cases x; cases y) (simp_all add: signedInfinity_def)

lemma near_bounds:
  fixes z r :: rat
  assumes "\<bar>z - r\<bar> \<le> \<bar>r\<bar> / 2 ^ 53"
  shows "\<bar>z\<bar> \<le> 2 * \<bar>r\<bar>" and "\<bar>r\<bar> / 2 \<le> \<bar>z\<bar>"
proof -
  have "\<bar>r\<bar> / 2 ^ 53 \<le> \<bar>r\<bar> / 2"
    by (intro divide_left_mono) simp_all
  with assms have "\<bar>z - r\<bar> \<le> \<bar>r\<bar> / 2" by linarith
  then show "\<bar>z\<bar> \<le> 2 * \<bar>r\<bar>" and "\<bar>r\<bar> / 2 \<le> \<bar>z\<bar>" by linarith+
qed

section \<open>Properties of the allocation helpers\<close>

lemma calculateOwnership_error:
  assumes y: "y \<noteq> 0"
    and lo: "2 powi (- 1022) \<le> \<bar>x / y\<bar>"
    and res: "calculateOwnership (Num x) (Num y) = Num w"
  shows "\<bar>w - 100 * (x / y)\<bar> \<le> 3 * \<bar>100 * (x / y)\<bar> / 2 ^ 53"
proof -
  define r where "r = x / y"
  have pos: "(0::rat) < 2 powi (- 1022)" by (rule zero_less_power_int) simp
  with lo have r0: "0 < \<bar>r\<bar>" unfolding r_def by linarith
  then have x: "x \<noteq> 0" unfolding r_def by auto
  from res y have res': "fmul (roundToDouble r) (Num 100) = Num w"
    unfolding r_def calculateOwnership_def fdiv_Num [OF x y] by simp
  from res' fmul_infinite [of "roundToDouble r" "Num 100" w]
  have fin: "roundToDouble r \<noteq> PlusInfinity" "roundToDouble r \<noteq> MinusInfinity"
    by auto
  from roundToDouble_normal [of r] lo fin
  obtain z where 3: "roundToDouble r = Num z" "\<bar>z - r\<bar> \<le> \<bar>r\<bar> / 2 ^ 53"
    unfolding r_def by blast
  from near_bounds [OF 3(2)] have zb: "\<bar>z\<bar> \<le> 2 * \<bar>r\<bar>" "\<bar>r\<bar> / 2 \<le> \<bar>z\<bar>" .
  with r0 have z: "z \<noteq> 0" by auto
  from res' 3(1) have w: "roundToDouble (z * 100) = Num w"
    using fmul_Num [OF z, of 100] by simp
  have "2 powi (- 1022) \<le> \<bar>r\<bar>"
    using lo unfolding r_def .
  also have "\<dots> \<le> \<bar>r\<bar> / 2 * 100"
    by simp
  also have "\<dots> \<le> \<bar>z * 100\<bar>"
    using zb(2) by (simp add: abs_mult)
  finally have lo2: "2 powi (- 1022) \<le> \<bar>z * 100\<bar>" .
  from roundToDouble_normal [OF lo2] w
  have e2: "\<bar>w - z * 100\<bar> \<le> \<bar>z * 100\<bar> / 2 ^ 53" by auto
  define u where "u = \<bar>r\<bar> / 2 ^ 53"
  have zr: "\<bar>z - r\<bar> \<le> u" using 3(2) unfolding u_def .
  have "\<bar>z * 100\<bar> / 2 ^ 53 \<le> (200 * \<bar>r\<bar>) / 2 ^ 53"
    using zb(1) by (intro divide_right_mono) (simp_all add: abs_mult)
  also have "\<dots> = 200 * u" unfolding u_def by simp
  finally have "\<bar>z * 100\<bar> / 2 ^ 53 \<le> 200 * u" .
  with e2 have e2': "\<bar>w - z * 100\<bar> \<le> 200 * u" by (rule order_trans)
  have "w - 100 * r = (w - z * 100) + 100 * (z - r)" by simp
  then have "\<bar>w - 100 * r\<bar> \<le> \<bar>w - z * 100\<bar> + \<bar>100 * (z - r)\<bar>"
    by (simp only: abs_triangle_ineq)
  then have "\<bar>w - 100 * r\<bar> \<le> \<bar>w - z * 100\<bar> + 100 * \<bar>z - r\<bar>"
    by (simp only: abs_mult abs_numeral)
  also have "\<dots> \<le> 200 * u + 100 * u"
    using e2' zr by (intro add_mono mult_left_mono) simp_all
  also have "\<dots> = 3 * \<bar>100 * r\<bar> / 2 ^ 53"
    unfolding u_def by (simp add: abs_mult)
  finally show ?thesis unfolding r_def .
qed


lemma fadd_of_int:
  assumes "\<bar>i + j\<bar> \<le> 2 ^ 53"
  shows "fadd (Num (of_int i)) (Num (of_int j)) = Num (of_int (i + j))"
proof (cases "i + j = 0")
  case True
  then have "(of_int i :: rat) + of_int j = 0"
    by (simp flip: of_int_add)
  with True show ?thesis by (simp add: fadd_Num)
next
  case False
  then have "(of_int i :: rat) + of_int j \<noteq> 0"
    by (simp flip: of_int_add)
  then show ?thesis
    using roundToDouble_of_int [OF False assms] by (simp add: fadd_Num)
qed

lemma fsub_of_int:
  assumes "\<bar>i - j\<bar> \<le> 2 ^ 53"
  shows "fsub (Num (of_int i)) (Num (of_int j)) = Num (of_int (i - j))"
proof (cases "i - j = 0")
  case True
  then show ?thesis by (simp add: fsub_Num)
next
  case False
  then have "(of_int i :: rat) - of_int j \<noteq> 0"
    by (simp flip: of_int_diff)
  then show ?thesis
    using roundToDouble_of_int [OF False assms] by (simp add: fsub_Num)
qed

lemma calculateClosingBalance_of_int:
  assumes "\<bar>a + c\<bar> \<le> 2 ^ 53" "\<bar>a + c - w\<bar> \<le> 2 ^ 53" "\<bar>a + c - w + n\<bar> \<le> 2 ^ 53"
  shows "calculateClosingBalance (Num (of_int a)) (Num (of_int c)) (Num (of_int w)) (Num (of_int n))
         = Num (of_int (a + n + c - w))"
proof -
  have "a + n + c - w = a + c - w + n" by simp
  then show ?thesis
    unfolding calculateClosingBalance_def
    by (simp only: fadd_of_int [OF assms(1)] fsub_of_int [OF assms(2)] fadd_of_int [OF assms(3)])
qed

text \<open>
  C2, as claimed: the computed ownership percentage equals \<open>b / n\<close> rounded to 6 decimal
  places (and 0 when \<open>n = 0\<close>). \<open>calculateOwnership\<close> does not compute that: for
  \<open>b = 1\<close>, \<open>n = 2\<close> it returns 50 where the rounded fraction is 0.5, and for \<open>b = 1\<close>,
  \<open>n = 3\<close> it returns the double 33.33333333333333 (printed to 16 digits), which is
  not 100 times the 6-decimal 0.333333.
\<close>

theorem calculateOwnership_counterexample:
  "calculateOwnership (Num 1) (Num 2) = Num 50
   \<and> ownership_pct 1 2 = 1 / 2
   \<and> calculateOwnership (Num 1) (Num 2) \<noteq> Num (ownership_pct 1 2)
   \<and> calculateOwnership (Num 1) (Num 3) = Num (2345624805922133 / 70368744177664)
   \<and> ownership_pct 1 3 = 333333 / 1000000
   \<and> calculateOwnership (Num 1) (Num 3) \<noteq> Num (100 * ownership_pct 1 3)"
  by code_simp

text \<open>
  C2, amended: for every opening balance \<open>b\<close> and club opening NAV \<open>n\<close>, the computed
  ownership is 0 when \<open>n\<close> is a zero and otherwise the percentage \<open>(b / n) * 100\<close> in
  double arithmetic, on the scale 0 to 100 and not rounded to 6 decimal places. Quotient
  and product are each rounded to the nearest double: a finite result, for a quotient of
  magnitude at least \<open>2^(-1022)\<close>, lies within \<open>3 * 2^(-53)\<close>, relatively, of the exact
  \<open>100 * b / n\<close>.
\<close>

theorem calculateOwnership_percentage:
  "(isZero n \<longrightarrow> calculateOwnership b n = Num 0)
   \<and> (\<not> isZero n \<longrightarrow> calculateOwnership b n = fmul (fdiv b n) (Num 100))
   \<and> (y \<noteq> 0 \<and> 2 powi (- 1022) \<le> \<bar>x / y\<bar> \<and> calculateOwnership (Num x) (Num y) = Num w \<longrightarrow>
        \<bar>w - 100 * (x / y)\<bar> \<le> 3 * \<bar>100 * (x / y)\<bar> / 2 ^ 53)"
  using calculateOwnership_error [of y x w] by (simp add: calculateOwnership_def)

theorem calculateOwnership_percentage_witness:
  "isZero MinusZero \<and> calculateOwnership (Num 5) MinusZero = Num 0
   \<and> \<not> isZero (Num 100)
   \<and> (100::rat) \<noteq> 0 \<and> 2 powi (- 1022) \<le> \<bar>(7::rat) / 100\<bar>
   \<and> calculateOwnership (Num 7) (Num 100) = Num (7881299347898369 / 1125899906842624)
   \<and> \<bar>7881299347898369 / 1125899906842624 - 100 * ((7::rat) / 100)\<bar>
        \<le> 3 * \<bar>100 * ((7::rat) / 100)\<bar> / 2 ^ 53"
proof -
  have h: "calculateOwnership (Num 7) (Num 100) = Num (7881299347898369 / 1125899906842624)"
    by code_simp
  have l: "2 powi (- 1022) \<le> \<bar>(7::rat) / 100\<bar>"
  proof -
    have "(2::rat) powi (- 1022) \<le> 2 powi (- 4)"
      by (intro power_int_increasing) simp_all
    also have "\<dots> \<le> \<bar>(7::rat) / 100\<bar>" by (simp add: power_int_minus)
    finally show ?thesis .
  qed
  have z: "calculateOwnership (Num 5) MinusZero = Num 0"
    by (simp add: calculateOwnership_def)
  from calculateOwnership_percentage
         [where n = "Num 100" and b = "Num 7" and x = 7 and y = 100
            and w = "7881299347898369 / 1125899906842624"] h l z
  show ?thesis by simp
qed




text \<open>
  C4, as claimed: the closing balance equals \<open>opening_balance + net_allocation +
  investor_contributions - investor_withdrawals + investor_adjustment_total\<close>.
  \<open>calculateClosingBalance\<close> takes no adjustment total: for an investor with opening
  balance 100 and adjustments of 5 it returns 100, the claimed formula gives 105. And
  its sum is a sum of doubles: for the opening balance \<open>2^53\<close>, contribution 1,
  withdrawal \<open>2^53\<close> and net allocation 1 it returns 1, the exact formula gives 2.
\<close>

theorem calculateClosingBalance_counterexample:
  "calculateClosingBalance (Num 100) (Num 0) (Num 0) (Num 0) = Num 100
   \<and> closing_balance 100 0 0 0 5 = 105
   \<and> calculateClosingBalance (Num 100) (Num 0) (Num 0) (Num 0) \<noteq> Num (closing_balance 100 0 0 0 5)
   \<and> calculateClosingBalance (Num (2 ^ 53)) (Num 1) (Num (2 ^ 53)) (Num 1) = Num 1
   \<and> closing_balance (2 ^ 53) 1 1 (2 ^ 53) 0 = 2"
  by code_simp

text \<open>
  C4, amended: for every investor, the closing balance is \<open>((opening_balance +
  investor_contributions) - investor_withdrawals) + net_allocation\<close>, added from left
  to right in double arithmetic; no adjustment total enters it. For whole-number amounts
  whose partial sums stay within \<open>2^53\<close> in magnitude it is exactly \<open>opening_balance +
  net_allocation + investor_contributions - investor_withdrawals\<close>, the formula of the
  claim at an adjustment total of 0.
\<close>

theorem calculateClosingBalance_without_adjustment:
  "calculateClosingBalance openingBalance c w netAllocation
     = fadd (fsub (fadd openingBalance c) w) netAllocation
   \<and> (\<bar>ob + con\<bar> \<le> 2 ^ 53 \<and> \<bar>ob + con - wd\<bar> \<le> 2 ^ 53 \<and> \<bar>ob + con - wd + net\<bar> \<le> 2 ^ 53 \<longrightarrow>
        calculateClosingBalance (Num (of_int ob)) (Num (of_int con)) (Num (of_int wd))
            (Num (of_int net))
          = Num (of_int ob + of_int net + of_int con - of_int wd)
        \<and> calculateClosingBalance (Num (of_int ob)) (Num (of_int con)) (Num (of_int wd))
            (Num (of_int net))
          = Num (closing_balance (of_int ob) (of_int net) (of_int con) (of_int wd) 0))"
  using calculateClosingBalance_of_int [of ob con wd net]
  by (simp add: calculateClosingBalance_def closing_balance_def)

theorem calculateClosingBalance_without_adjustment_witness:
  "\<bar>(6000000::int) + 500000\<bar> \<le> 2 ^ 53 \<and> \<bar>(6000000::int) + 500000 - 200000\<bar> \<le> 2 ^ 53
   \<and> \<bar>(6000000::int) + 500000 - 200000 + 600000\<bar> \<le> 2 ^ 53
   \<and> calculateClosingBalance (Num 6000000) (Num 500000) (Num 200000) (Num 600000) = Num 6900000"
proof -
  note calculateClosingBalance_without_adjustment
          [where ob = 6000000 and con = 500000 and wd = 200000 and net = 600000
             and openingBalance = "Num 6000000" and c = "Num 500000" and w = "Num 200000"
             and netAllocation = "Num 600000", THEN conjunct2]
  then have "calculateClosingBalance (Num 6000000) (Num 500000) (Num 200000) (Num 600000)
          = Num 6900000"
    by simp
  then show ?thesis by simp
qed

section \<open>Properties of the NAV accounting engine\<close>

lemma freeze_closing_balance:
  "map bal_closing_balance (map freeze rows) = map pos_closing_balance rows"
  by (simp add: freeze_def comp_def)

lemma closePeriod_Inr:
  "closePeriod now p es opening = Inr (p', snap, bals) \<Longrightarrow>
     period_status p = review
     \<and> is_reconciled p es opening
     \<and> can_close (getCloseChecklist p es opening)
     \<and> p' = p\<lparr> period_status := closed,
                closing_nav := club_closing_nav (opening_nav p) es,
                reconciliation_diff := 0,
                locked_at := Some now \<rparr>
     \<and> snap = build_snapshot p es
     \<and> bals = map freeze (allocate p es opening)"
  by (auto simp add: closePeriod_def is_reconciled_def previewPeriod_def reconcile_def Let_def
           split: if_splits)

lemma is_reconciled_iff:
  "is_reconciled p es opening \<longleftrightarrow>
     sum_list (map pos_closing_balance (allocate p es opening))
       = club_closing_nav (opening_nav p) es"
  by (auto simp add: is_reconciled_def previewPeriod_def reconcile_def Let_def)

text \<open>
  C1: for every period successfully transitioned to Closed, the sum of the
  \<open>InvestorBalance.closing_balance\<close> rows written for that period equals
  \<open>NavSnapshot.closing_nav\<close> exactly, at money precision. Whenever \<open>closePeriod\<close>
  succeeds, the balances it writes add up to the closing NAV of the snapshot it writes;
  the period it returns is Closed, carries that closing NAV and a zero difference, and is
  locked at the time of the close.
\<close>

theorem close_reconciles_exactly:
  assumes "closePeriod now p es opening = Inr (p', snap, bals)"
  shows "sum_list (map bal_closing_balance bals) = snap_closing_nav snap
         \<and> period_status p' = closed
         \<and> closing_nav p' = snap_closing_nav snap
         \<and> reconciliation_diff p' = 0
         \<and> locked_at p' = Some now
         \<and> length bals = length (with_ledger_investors opening es)"
proof -
  from assms have r: "is_reconciled p es opening"
    and p': "p' = p\<lparr> period_status := closed,
                closing_nav := club_closing_nav (opening_nav p) es,
                reconciliation_diff := 0,
                locked_at := Some now \<rparr>"
    and snap: "snap = build_snapshot p es"
    and bals: "bals = map freeze (allocate p es opening)"
    using closePeriod_Inr [OF assms] by simp_all
  have "sum_list (map bal_closing_balance bals)
          = sum_list (map pos_closing_balance (allocate p es opening))"
    unfolding bals freeze_closing_balance ..
  also have "\<dots> = club_closing_nav (opening_nav p) es"
    using r by (simp add: is_reconciled_iff)
  also have "\<dots> = snap_closing_nav snap"
    by (simp add: snap build_snapshot_def)
  finally have "sum_list (map bal_closing_balance bals) = snap_closing_nav snap" .
  moreover have "length bals = length (with_ledger_investors opening es)"
    by (simp add: bals allocate_def)
  ultimately show ?thesis
    by (simp add: p' snap build_snapshot_def)
qed

theorem close_reconciles_exactly_witness:
  "closePeriod 1
     \<lparr> period_status = review, opening_nav = 10000000, closing_nav = 0,
       reconciliation_diff = 0, locked_at = None \<rparr>
     [\<lparr> posted_type = income, posted_amount = 1000000, posted_investor = None \<rparr>,
      \<lparr> posted_type = contribution, posted_amount = 500000, posted_investor = Some 1 \<rparr>]
     [(1, 6000000), (2, 4000000)]
   = Inr (\<lparr> period_status = closed, opening_nav = 10000000, closing_nav = 11500000,
            reconciliation_diff = 0, locked_at = Some 1 \<rparr>,
          \<lparr> snap_opening_nav = 10000000, snap_contributions = 500000, snap_withdrawals = 0,
            snap_income = 1000000, snap_expenses = 0, snap_closing_nav = 11500000 \<rparr>,
          [\<lparr> bal_investor = 1, bal_opening_balance = 6000000, bal_ownership_pct = 3 / 5,
             bal_income_share = 600000, bal_expense_share = 0, bal_net_allocation = 600000,
             bal_contributions = 500000, bal_withdrawals = 0, bal_adjustments = 0,
             bal_closing_balance = 7100000 \<rparr>,
           \<lparr> bal_investor = 2, bal_opening_balance = 4000000, bal_ownership_pct = 2 / 5,
             bal_income_share = 400000, bal_expense_share = 0, bal_net_allocation = 400000,
             bal_contributions = 0, bal_withdrawals = 0, bal_adjustments = 0,
             bal_closing_balance = 4400000 \<rparr>])
   \<and> sum_list (map bal_closing_balance
         [\<lparr> bal_investor = 1, bal_opening_balance = 6000000, bal_ownership_pct = 3 / 5,
             bal_income_share = 600000, bal_expense_share = 0, bal_net_allocation = 600000,
             bal_contributions = 500000, bal_withdrawals = 0, bal_adjustments = 0,
             bal_closing_balance = 7100000 \<rparr>,
           \<lparr> bal_investor = 2, bal_opening_balance = 4000000, bal_ownership_pct = 2 / 5,
             bal_income_share = 400000, bal_expense_share = 0, bal_net_allocation = 400000,
             bal_contributions = 0, bal_withdrawals = 0, bal_adjustments = 0,
             bal_closing_balance = 4400000 \<rparr>]) = 11500000"
proof -
  have c: "closePeriod 1
     \<lparr> period_status = review, opening_nav = 10000000, closing_nav = 0,
       reconciliation_diff = 0, locked_at = None \<rparr>
     [\<lparr> posted_type = income, posted_amount = 1000000, posted_investor = None \<rparr>,
      \<lparr> posted_type = contribution, posted_amount = 500000, posted_investor = Some 1 \<rparr>]
     [(1, 6000000), (2, 4000000)]
   = Inr (\<lparr> period_status = closed, opening_nav = 10000000, closing_nav = 11500000,
            reconciliation_diff = 0, locked_at = Some 1 \<rparr>,
          \<lparr> snap_opening_nav = 10000000, snap_contributions = 500000, snap_withdrawals = 0,
            snap_income = 1000000, snap_expenses = 0, snap_closing_nav = 11500000 \<rparr>,
          [\<lparr> bal_investor = 1, bal_opening_balance = 6000000, bal_ownership_pct = 3 / 5,
             bal_income_share = 600000, bal_expense_share = 0, bal_net_allocation = 600000,
             bal_contributions = 500000, bal_withdrawals = 0, bal_adjustments = 0,
             bal_closing_balance = 7100000 \<rparr>,
           \<lparr> bal_investor = 2, bal_opening_balance = 4000000, bal_ownership_pct = 2 / 5,
             bal_income_share = 400000, bal_expense_share = 0, bal_net_allocation = 400000,
             bal_contributions = 0, bal_withdrawals = 0, bal_adjustments = 0,
             bal_closing_balance = 4400000 \<rparr>])"
    by code_simp
  from close_reconciles_exactly [OF c] c show ?thesis by simp
qed


text \<open>
  C5: for every period, the club-level closing NAV equals \<open>opening_nav +
  total_contributions - total_withdrawals + total_income - total_expenses\<close>, computed
  from the aggregated ledger totals and not by summing investor rows: it is the same
  whatever the investor positions are, the snapshot of a close carries the same figure,
  and each total is the sum of the amounts of the entries of its type.
\<close>

theorem closing_nav_from_ledger_totals:
  "preview_closing_nav (previewPeriod p es positions)
     = opening_nav p + type_total contribution es - type_total withdrawal es
         + type_total income es - type_total expense es
   \<and> preview_closing_nav (previewPeriod p es positions')
     = preview_closing_nav (previewPeriod p es positions)
   \<and> snap_closing_nav (build_snapshot p es)
     = preview_closing_nav (previewPeriod p es positions)
   \<and> type_total t es = (\<Sum>e\<leftarrow>es. if posted_type e = t then posted_amount e else 0)"
proof -
  have "type_total t es = (\<Sum>e\<leftarrow>es. if posted_type e = t then posted_amount e else 0)"
    unfolding type_total_def by (induction es) simp_all
  then show ?thesis
    by (simp add: previewPeriod_def club_closing_nav_def build_snapshot_def Let_def)
qed

theorem closing_nav_from_ledger_totals_witness:
  "preview_closing_nav (previewPeriod
      \<lparr> period_status = draft, opening_nav = 10000000, closing_nav = 0,
        reconciliation_diff = 0, locked_at = None \<rparr>
      [\<lparr> posted_type = income, posted_amount = 1000000, posted_investor = None \<rparr>]
      [(1, 6000000)]) = 11000000
   \<and> sum_list (map pos_closing_balance (preview_positions (previewPeriod
      \<lparr> period_status = draft, opening_nav = 10000000, closing_nav = 0,
        reconciliation_diff = 0, locked_at = None \<rparr>
      [\<lparr> posted_type = income, posted_amount = 1000000, posted_investor = None \<rparr>]
      [(1, 6000000)]))) = 6600000"
proof -
  have "type_total income
          [\<lparr> posted_type = income, posted_amount = 1000000, posted_investor = None \<rparr>] = 1000000"
       "type_total contribution
          [\<lparr> posted_type = income, posted_amount = 1000000, posted_investor = None \<rparr>] = 0"
       "type_total withdrawal
          [\<lparr> posted_type = income, posted_amount = 1000000, posted_investor = None \<rparr>] = 0"
       "type_total expense
          [\<lparr> posted_type = income, posted_amount = 1000000, posted_investor = None \<rparr>] = 0"
    by (simp_all add: type_total_def)
  moreover have "sum_list (map pos_closing_balance (preview_positions (previewPeriod
      \<lparr> period_status = draft, opening_nav = 10000000, closing_nav = 0,
        reconciliation_diff = 0, locked_at = None \<rparr>
      [\<lparr> posted_type = income, posted_amount = 1000000, posted_investor = None \<rparr>]
      [(1, 6000000)]))) = 6600000"
    by code_simp
  ultimately show ?thesis
    using closing_nav_from_ledger_totals
      [where p = "\<lparr> period_status = draft, opening_nav = 10000000, closing_nav = 0,
                    reconciliation_diff = 0, locked_at = None \<rparr>"
         and es = "[\<lparr> posted_type = income, posted_amount = 1000000, posted_investor = None \<rparr>]"
         and positions = "[(1, 6000000)]"]
    by simp
qed

lemma getCloseChecklist_can_close:
  "can_close (getCloseChecklist p es positions) \<longleftrightarrow>
     has_positions positions \<and> has_ledger_entries es \<and> submitted_for_review p
     \<and> is_reconciled p es positions \<and> not_already_closed p"
  by (simp add: getCloseChecklist_def)

lemma checklistRows_getCloseChecklist:
  "checklistRows (ctx\<lparr>closeChecklist := Some (getCloseChecklist p es positions)\<rparr>) =
     [ \<lparr> key = ''has_positions'', label = ''Investor positions exist'',
         pass = Some (has_positions positions) \<rparr>,
       \<lparr> key = ''has_ledger_entries'', label = ''Ledger entries posted'',
         pass = Some (has_ledger_entries es) \<rparr>,
       \<lparr> key = ''submitted_for_review'', label = ''Submitted for review'',
         pass = Some (submitted_for_review p) \<rparr>,
       \<lparr> key = ''reconciled'', label = ''Reconciliation exact'',
         pass = Some (is_reconciled p es positions) \<rparr>,
       \<lparr> key = ''not_already_closed'', label = ''Period not already closed'',
         pass = Some (not_already_closed p) \<rparr> ]"
  by (simp add: checklistRows_def getCloseChecklist_def)

lemma closePeriod_blocked:
  "\<not> can_close (getCloseChecklist p es positions) \<Longrightarrow> isl (closePeriod now p es positions)"
  by (simp add: closePeriod_def Let_def)

lemma clickRunClose_blocked:
  "closeChecklist ctx = Some c \<Longrightarrow> \<not> can_close c \<Longrightarrow>
     runCloseDisabled submitting ctx \<and> clickRunClose submitting ctx = Returned"
  by (simp add: runCloseDisabled_def clickRunClose_def)

text \<open>
  C6: for every period, the aggregate \<open>can_close\<close> of the close checklist is true
  exactly when all five conditions hold (investor positions exist, at least one ledger
  entry is posted, the status is Review, the reconciliation reports reconciled, the
  period is not already Closed); each condition is exposed individually, under its own
  key, as a row of the view; and whenever any single condition is false the close is
  blocked: the Run Close button is disabled, a click on it sends nothing, and
  \<open>closePeriod\<close> returns an error.
\<close>

theorem close_checklist_gates_close:
  "(can_close (getCloseChecklist p es positions) \<longleftrightarrow>
      positions \<noteq> [] \<and> es \<noteq> [] \<and> period_status p = review
      \<and> reconciled (preview_reconciliation (previewPeriod p es positions))
      \<and> period_status p \<noteq> closed)
   \<and> map (\<lambda>r. (key r, pass r))
        (checklistRows (ctx\<lparr>closeChecklist := Some (getCloseChecklist p es positions)\<rparr>))
      = [ (''has_positions'', Some (positions \<noteq> [])),
          (''has_ledger_entries'', Some (es \<noteq> [])),
          (''submitted_for_review'', Some (period_status p = review)),
          (''reconciled'', Some (reconciled (preview_reconciliation (previewPeriod p es positions)))),
          (''not_already_closed'', Some (period_status p \<noteq> closed)) ]
   \<and> (positions = [] \<or> es = [] \<or> period_status p \<noteq> review
        \<or> \<not> reconciled (preview_reconciliation (previewPeriod p es positions))
        \<or> period_status p = closed \<longrightarrow>
        \<not> can_close (getCloseChecklist p es positions)
        \<and> runCloseDisabled submitting (ctx\<lparr>closeChecklist := Some (getCloseChecklist p es positions)\<rparr>)
        \<and> clickRunClose submitting (ctx\<lparr>closeChecklist := Some (getCloseChecklist p es positions)\<rparr>)
            = Returned
        \<and> isl (closePeriod now p es positions))"
proof -
  let ?c = "getCloseChecklist p es positions"
  let ?ctx = "ctx\<lparr>closeChecklist := Some ?c\<rparr>"
  have iff: "can_close ?c \<longleftrightarrow>
      positions \<noteq> [] \<and> es \<noteq> [] \<and> period_status p = review
      \<and> reconciled (preview_reconciliation (previewPeriod p es positions))
      \<and> period_status p \<noteq> closed"
    by (simp add: getCloseChecklist_can_close has_positions_def has_ledger_entries_def
          submitted_for_review_def is_reconciled_def not_already_closed_def)
  have rows: "map (\<lambda>r. (key r, pass r)) (checklistRows ?ctx)
      = [ (''has_positions'', Some (positions \<noteq> [])),
          (''has_ledger_entries'', Some (es \<noteq> [])),
          (''submitted_for_review'', Some (period_status p = review)),
          (''reconciled'', Some (reconciled (preview_reconciliation (previewPeriod p es positions)))),
          (''not_already_closed'', Some (period_status p \<noteq> closed)) ]"
    by (simp add: checklistRows_getCloseChecklist has_positions_def has_ledger_entries_def
          submitted_for_review_def is_reconciled_def not_already_closed_def)
  have blocked: "\<not> can_close ?c \<longrightarrow>
        runCloseDisabled submitting ?ctx \<and> clickRunClose submitting ?ctx = Returned
        \<and> isl (closePeriod now p es positions)"
    using clickRunClose_blocked [of ?ctx ?c submitting] closePeriod_blocked [of p es positions now]
    by simp
  from iff rows blocked show ?thesis by blast
qed


theorem close_checklist_gates_close_witness:
  "period_status \<lparr> period_status = draft, opening_nav = 10000000, closing_nav = 0,
                   reconciliation_diff = 0, locked_at = None \<rparr> \<noteq> review
   \<and> \<not> can_close (getCloseChecklist
          \<lparr> period_status = draft, opening_nav = 10000000, closing_nav = 0,
            reconciliation_diff = 0, locked_at = None \<rparr>
          [\<lparr> posted_type = income, posted_amount = 1000000, posted_investor = None \<rparr>]
          [(1, 6000000), (2, 4000000)])
   \<and> clickRunClose False
        \<lparr> selectedClubId = Some 1, selectedPeriodId = Some 7, selectedPeriod = Some draft,
          periodState = Some draft,
          closeChecklist = Some (getCloseChecklist
            \<lparr> period_status = draft, opening_nav = 10000000, closing_nav = 0,
              reconciliation_diff = 0, locked_at = None \<rparr>
            [\<lparr> posted_type = income, posted_amount = 1000000, posted_investor = None \<rparr>]
            [(1, 6000000), (2, 4000000)]) \<rparr> = Returned
   \<and> closePeriod 1
        \<lparr> period_status = draft, opening_nav = 10000000, closing_nav = 0,
          reconciliation_diff = 0, locked_at = None \<rparr>
        [\<lparr> posted_type = income, posted_amount = 1000000, posted_investor = None \<rparr>]
        [(1, 6000000), (2, 4000000)] = Inl StateError
   \<and> can_close (getCloseChecklist
          \<lparr> period_status = review, opening_nav = 10000000, closing_nav = 0,
            reconciliation_diff = 0, locked_at = None \<rparr>
          [\<lparr> posted_type = income, posted_amount = 1000000, posted_investor = None \<rparr>]
          [(1, 6000000), (2, 4000000)])
   \<and> clickRunClose False
        \<lparr> selectedClubId = Some 1, selectedPeriodId = Some 7, selectedPeriod = Some review,
          periodState = Some review,
          closeChecklist = Some (getCloseChecklist
            \<lparr> period_status = review, opening_nav = 10000000, closing_nav = 0,
              reconciliation_diff = 0, locked_at = None \<rparr>
            [\<lparr> posted_type = income, posted_amount = 1000000, posted_investor = None \<rparr>]
            [(1, 6000000), (2, 4000000)]) \<rparr> = Sent (closeMonth 1 7)"
proof -
  have r: "reconciled (preview_reconciliation (previewPeriod
          \<lparr> period_status = review, opening_nav = 10000000, closing_nav = 0,
            reconciliation_diff = 0, locked_at = None \<rparr>
          [\<lparr> posted_type = income, posted_amount = 1000000, posted_investor = None \<rparr>]
          [(1, 6000000), (2, 4000000)]))"
    by code_simp
  have d: "closePeriod 1
        \<lparr> period_status = draft, opening_nav = 10000000, closing_nav = 0,
          reconciliation_diff = 0, locked_at = None \<rparr>
        [\<lparr> posted_type = income, posted_amount = 1000000, posted_investor = None \<rparr>]
        [(1, 6000000), (2, 4000000)] = Inl StateError"
    by (simp add: closePeriod_def)
  show ?thesis
    using r d
      close_checklist_gates_close
        [where p = "\<lparr> period_status = draft, opening_nav = 10000000, closing_nav = 0,
                      reconciliation_diff = 0, locked_at = None \<rparr>"
           and es = "[\<lparr> posted_type = income, posted_amount = 1000000, posted_investor = None \<rparr>]"
           and positions = "[(1, 6000000), (2, 4000000)]"
           and submitting = False and now = 1
           and ctx = "\<lparr> selectedClubId = Some 1, selectedPeriodId = Some 7,
                        selectedPeriod = Some draft, periodState = Some draft,
                        closeChecklist = None \<rparr>"]
      close_checklist_gates_close
        [where p = "\<lparr> period_status = review, opening_nav = 10000000, closing_nav = 0,
                      reconciliation_diff = 0, locked_at = None \<rparr>"
           and es = "[\<lparr> posted_type = income, posted_amount = 1000000, posted_investor = None \<rparr>]"
           and positions = "[(1, 6000000), (2, 4000000)]"
           and submitting = False and now = 1
           and ctx = "\<lparr> selectedClubId = Some 1, selectedPeriodId = Some 7,
                        selectedPeriod = Some review, periodState = Some review,
                        closeChecklist = None \<rparr>"]
    by (simp add: clickRunClose_def runCloseDisabled_def handleCloseMonth_def locked_def)
qed


end
